theory Spec2Isabelle
  imports Complex_Main
begin

chapter \<open>The program\<close>

section \<open>Numbers, vectors and errors\<close>

text \<open>
  The program is \<^verbatim>\<open>src/script.js\<close> (the version that starts at line 666, the one with
  \<^verbatim>\<open>detectGesture\<close>, \<^verbatim>\<open>explodeUniverse\<close> and the saturn and earth templates).

  A JavaScript number that is known to be finite is modelled as a \<^typ>\<open>real\<close>: the
  arithmetic of the doubles is exact, its rounding and overflow are left out. The elements
  of a \<^verbatim>\<open>Float32Array\<close> are of the type \<open>jsnum\<close> below, which adds the infinities and
  NaN, and every store into such an array rounds to binary32 (\<open>fround\<close>). An exception
  is a value of \<open>js_error\<close>; the only exception the code of this file can raise is the
  runtime's \<^verbatim>\<open>TypeError\<close> (a property read on \<^verbatim>\<open>undefined\<close>, a call of something that
  is not a function).
\<close>

datatype js_error = TypeError

record vec3 =
  vec_x :: real
  vec_y :: real
  vec_z :: real

definition Vector3 :: "real \<Rightarrow> real \<Rightarrow> real \<Rightarrow> vec3" where
  "Vector3 a b c = \<lparr>vec_x = a, vec_y = b, vec_z = c\<rparr>"

text \<open>\<^verbatim>\<open>Vector3.lerp(v, alpha)\<close> of three.js: each component moves by \<open>alpha\<close> towards \<open>v\<close>.\<close>

definition vec_lerp :: "vec3 \<Rightarrow> vec3 \<Rightarrow> real \<Rightarrow> vec3" where
  "vec_lerp u v alpha =
     Vector3 (vec_x u + (vec_x v - vec_x u) * alpha)
             (vec_y u + (vec_y v - vec_y u) * alpha)
             (vec_z u + (vec_z v - vec_z u) * alpha)"

section \<open>Gesture classifier\<close>

text \<open>
  A hand is the array of landmarks MediaPipe delivers; a landmark has \<open>x\<close>, \<open>y\<close>, \<open>z\<close>.
  A slot of the array may hold no landmark (\<^verbatim>\<open>undefined\<close>, \<open>None\<close>).
\<close>

record landmark =
  lm_x :: real
  lm_y :: real
  lm_z :: real

type_synonym hand = "landmark option list"

datatype gesture = Open | Closed | Neutral | Peace

text \<open>
  \<^verbatim>\<open>handLandmarks[i]\<close>: the landmark in slot \<open>i\<close>, or \<^verbatim>\<open>undefined\<close> (\<open>None\<close>) for an
  empty slot and past the end of the array. Reading a property of \<^verbatim>\<open>undefined\<close>
  throws.
\<close>

definition landmark_at :: "hand \<Rightarrow> nat \<Rightarrow> landmark option" where
  "landmark_at handLandmarks i =
     (if i < length handLandmarks then handLandmarks ! i else None)"

definition isFingerExtended :: "hand \<Rightarrow> nat \<Rightarrow> nat \<Rightarrow> js_error + bool" where
  "isFingerExtended handLandmarks tipIndex pipIndex =
     (case landmark_at handLandmarks tipIndex of
        None \<Rightarrow> Inl TypeError
      | Some tip \<Rightarrow>
          (case landmark_at handLandmarks pipIndex of
             None \<Rightarrow> Inl TypeError
           | Some pip \<Rightarrow> Inr (lm_y tip < lm_y pip)))"

text \<open>\<^verbatim>\<open>[a, b, c, d].filter(Boolean).length\<close>\<close>

definition extendedCount :: "bool list \<Rightarrow> nat" where
  "extendedCount bs = length (filter (\<lambda>b. b) bs)"

definition detectGesture :: "hand \<Rightarrow> js_error + gesture" where
  "detectGesture handLandmarks =
     (case isFingerExtended handLandmarks 4 3 of Inl e \<Rightarrow> Inl e | Inr thumbExtended \<Rightarrow>
      case isFingerExtended handLandmarks 8 6 of Inl e \<Rightarrow> Inl e | Inr indexExtended \<Rightarrow>
      case isFingerExtended handLandmarks 12 10 of Inl e \<Rightarrow> Inl e | Inr middleExtended \<Rightarrow>
      case isFingerExtended handLandmarks 16 14 of Inl e \<Rightarrow> Inl e | Inr ringExtended \<Rightarrow>
      case isFingerExtended handLandmarks 20 18 of Inl e \<Rightarrow> Inl e | Inr pinkyExtended \<Rightarrow>
        (let extendedFingers =
               extendedCount [indexExtended, middleExtended, ringExtended, pinkyExtended]
         in if indexExtended \<and> middleExtended \<and> \<not> ringExtended then Inr Peace
            else if extendedFingers \<ge> 3 then Inr Open
            else if extendedFingers \<le> 1 then Inr Closed
            else Inr Neutral))"

subsection \<open>Smoothing\<close>

definition gestureHistorySize :: nat where
  "gestureHistorySize = 5"

text \<open>
  The object \<^verbatim>\<open>counts = { open: 0, closed: 0, neutral: 0, peace: 0 }\<close> is an association
  list in insertion order, the order in which \<^verbatim>\<open>Object.entries\<close> lists it.
  \<^verbatim>\<open>counts[g]++\<close> changes the entry of \<open>g\<close> in place.
\<close>

definition initial_counts :: "(gesture \<times> nat) list" where
  "initial_counts = [(Open, 0), (Closed, 0), (Neutral, 0), (Peace, 0)]"

fun increment :: "gesture \<Rightarrow> (gesture \<times> nat) list \<Rightarrow> (gesture \<times> nat) list" where
  "increment g [] = []"
| "increment g ((k, c) # kcs) =
     (if k = g then (k, Suc c) # kcs else (k, c) # increment g kcs)"

definition count_gestures :: "gesture list \<Rightarrow> (gesture \<times> nat) list" where
  "count_gestures history = foldl (\<lambda>counts g. increment g counts) initial_counts history"

text \<open>The scan for the maximum: a later entry replaces the result only with a greater count.\<close>

fun most_common :: "(gesture \<times> nat) list \<Rightarrow> nat \<Rightarrow> gesture \<Rightarrow> gesture" where
  "most_common [] maxCount result = result"
| "most_common ((g, c) # entries) maxCount result =
     (if c > maxCount then most_common entries c g
      else most_common entries maxCount result)"

text \<open>
  \<open>smoothGesture\<close> changes the global \<^verbatim>\<open>gestureHistory\<close>: the model takes the history
  and returns the smoothed gesture with the new history.
\<close>

definition push_history :: "gesture list \<Rightarrow> gesture \<Rightarrow> gesture list" where
  "push_history history newGesture =
     (let pushed = history @ [newGesture]
      in if length pushed > gestureHistorySize then tl pushed else pushed)"

definition smoothGesture :: "gesture \<Rightarrow> gesture list \<Rightarrow> gesture \<times> gesture list" where
  "smoothGesture newGesture history =
     (let history' = push_history history newGesture
      in (most_common (count_gestures history') 0 Neutral, history'))"

text \<open>The position of a gesture in the enumeration order of \<open>counts\<close>.\<close>

fun rank :: "gesture \<Rightarrow> nat" where
  "rank Open = 0"
| "rank Closed = 1"
| "rank Neutral = 2"
| "rank Peace = 3"

subsection \<open>Control signals\<close>

text \<open>The hand-tracking globals of the script, as one record.\<close>

record tracking =
  handDistance :: real
  handGesture :: gesture
  targetHandPosition :: vec3
  targetHandRotationZ :: real
  targetHandRotationY :: real
  lastHandPosition :: "vec3 option"
  gestureHistory :: "gesture list"
  lockOnExit :: bool

definition positionScale :: real where
  "positionScale = 200"

text \<open>
  \<open>updateHandPosition\<close> sets \<^verbatim>\<open>targetHandPosition\<close> from the wrist, landmark 0; the model
  returns the new vector.
\<close>

definition updateHandPosition :: "hand \<Rightarrow> js_error + vec3" where
  "updateHandPosition handLandmarks =
     (case landmark_at handLandmarks 0 of
        None \<Rightarrow> Inl TypeError
      | Some wrist \<Rightarrow>
          Inr (Vector3 ((lm_x wrist - 0.5) * positionScale)
                       ((0.5 - lm_y wrist) * positionScale)
                       (lm_z wrist * positionScale * 0.5)))"

text \<open>
  \<^verbatim>\<open>Math.atan2(y, x)\<close> on finite arguments (the sign of a zero is not modelled: both
  arguments zero give 0).
\<close>

definition atan2 :: "real \<Rightarrow> real \<Rightarrow> real" where
  "atan2 y x =
     (if x > 0 then arctan (y / x)
      else if x < 0 then (if y \<ge> 0 then arctan (y / x) + pi else arctan (y / x) - pi)
      else if y > 0 then pi / 2
      else if y < 0 then - (pi / 2)
      else 0)"

definition getHandRoll :: "hand \<Rightarrow> js_error + real" where
  "getHandRoll handLandmarks =
     (case landmark_at handLandmarks 0 of
        None \<Rightarrow> Inl TypeError
      | Some p1 \<Rightarrow>
          (case landmark_at handLandmarks 9 of
             None \<Rightarrow> Inl TypeError
           | Some p2 \<Rightarrow>
               (let dx = lm_x p2 - lm_x p1; dy = lm_y p2 - lm_y p1
                in Inr (atan2 dy dx + pi / 2))))"

definition getHandYaw :: "hand \<Rightarrow> js_error + real" where
  "getHandYaw handLandmarks =
     (case landmark_at handLandmarks 5 of
        None \<Rightarrow> Inl TypeError
      | Some indexMCP \<Rightarrow>
          (case landmark_at handLandmarks 17 of
             None \<Rightarrow> Inl TypeError
           | Some pinkyMCP \<Rightarrow>
               (let sensitivity = 8.0
                in Inr ((lm_z indexMCP - lm_z pinkyMCP) * sensitivity))))"

subsection \<open>The observation callback\<close>

text \<open>
  \<open>onResults\<close> has three branches, on the number of hands. Each is a function from the
  globals to the globals at the end of the callback, with the exception that ended it, if
  any: the assignments made before a \<^verbatim>\<open>throw\<close> stay.
\<close>

definition twoHands :: "hand \<Rightarrow> hand \<Rightarrow> tracking \<Rightarrow> js_error option \<times> tracking" where
  "twoHands hand1 hand2 st =
     (case landmark_at hand1 0 of
        None \<Rightarrow> (Some TypeError, st)
      | Some wrist1 \<Rightarrow>
          (case landmark_at hand2 0 of
             None \<Rightarrow> (Some TypeError, st)
           | Some wrist2 \<Rightarrow>
               (let dx = lm_x wrist1 - lm_x wrist2;
                    dy = lm_y wrist1 - lm_y wrist2;
                    distance = sqrt (dx * dx + dy * dy);
                    MIN_DIST = 0.05;
                    MAX_DIST = 0.7;
                    avgX = (lm_x wrist1 + lm_x wrist2) / 2;
                    avgY = (lm_y wrist1 + lm_y wrist2) / 2;
                    avgZ = (lm_z wrist1 + lm_z wrist2) / 2
                in (None,
                    st\<lparr>handDistance :=
                         max 0 (min 1 ((distance - MIN_DIST) / (MAX_DIST - MIN_DIST))),
                       targetHandPosition :=
                         Vector3 ((avgX - 0.5) * positionScale)
                                 ((0.5 - avgY) * positionScale)
                                 (avgZ * positionScale * 0.5),
                       handGesture := Neutral,
                       gestureHistory := []\<rparr>))))"

definition oneHand :: "hand \<Rightarrow> tracking \<Rightarrow> js_error option \<times> tracking" where
  "oneHand hand st =
     (case detectGesture hand of
        Inl e \<Rightarrow> (Some e, st)
      | Inr detectedGesture \<Rightarrow>
          (let smoothed = smoothGesture detectedGesture (gestureHistory st);
               st1 = st\<lparr>handGesture := fst smoothed, gestureHistory := snd smoothed\<rparr>
           in case updateHandPosition hand of
                Inl e \<Rightarrow> (Some e, st1)
              | Inr position \<Rightarrow>
                  (let st2 = st1\<lparr>targetHandPosition := position\<rparr>
                   in case getHandRoll hand of
                        Inl e \<Rightarrow> (Some e, st2)
                      | Inr roll \<Rightarrow>
                          (let st3 = st2\<lparr>targetHandRotationZ := - roll\<rparr>
                           in case getHandYaw hand of
                                Inl e \<Rightarrow> (Some e, st3)
                              | Inr yaw \<Rightarrow>
                                  (None, st3\<lparr>targetHandRotationY := yaw * 2.0,
                                              handDistance := 0.5\<rparr>)))))"

definition noHands :: "tracking \<Rightarrow> js_error option \<times> tracking" where
  "noHands st =
     (let st1 =
            (if \<not> lockOnExit st
             then (let smoothed = smoothGesture Neutral (gestureHistory st)
                   in st\<lparr>handDistance := 0.5,
                         handGesture := fst smoothed,
                         gestureHistory := snd smoothed,
                         targetHandPosition :=
                           vec_lerp (targetHandPosition st) (Vector3 0 0 0) 0.1\<rparr>)
             else st)
      in (None, st1\<lparr>lastHandPosition := None, gestureHistory := []\<rparr>))"

text \<open>
  \<^verbatim>\<open>results.multiHandLandmarks\<close> is \<^verbatim>\<open>undefined\<close> (\<open>None\<close>) or an array of hands.
\<close>

definition onResults :: "hand list option \<Rightarrow> tracking \<Rightarrow> js_error option \<times> tracking" where
  "onResults landmarks st =
     (case landmarks of
        None \<Rightarrow> noHands st
      | Some hands \<Rightarrow>
          if length hands = 2 then twoHands (hands ! 0) (hands ! 1) st
          else if length hands = 1 then oneHand (hands ! 0) st
          else noHands st)"

subsection \<open>Notions used to state the properties of the classifier\<close>

text \<open>The landmarks \<open>detectGesture\<close> reads: tip and joint of the five fingers.\<close>

definition detect_indices :: "nat list" where
  "detect_indices = [4, 3, 8, 6, 12, 10, 16, 14, 20, 18]"

text \<open>A fingertip is above its joint when both are there and its \<open>y\<close> is smaller.\<close>

definition tip_above_joint :: "hand \<Rightarrow> nat \<Rightarrow> nat \<Rightarrow> bool" where
  "tip_above_joint h tip pip =
     (case landmark_at h tip of
        None \<Rightarrow> False
      | Some t \<Rightarrow> (case landmark_at h pip of None \<Rightarrow> False | Some j \<Rightarrow> lm_y t < lm_y j))"

text \<open>How many of index, middle, ring and pinky are extended.\<close>

definition fingers_up :: "hand \<Rightarrow> nat" where
  "fingers_up h =
     of_bool (tip_above_joint h 8 6) + of_bool (tip_above_joint h 12 10)
       + of_bool (tip_above_joint h 16 14) + of_bool (tip_above_joint h 20 18)"

text \<open>The gesture \<open>smoothGesture\<close> returns for a history that is already pushed.\<close>

definition smoothed :: "gesture list \<Rightarrow> gesture" where
  "smoothed h = most_common (count_gestures h) 0 Neutral"

text \<open>A hand of \<open>n\<close> landmarks, all at the same place.\<close>

definition flat_hand :: "nat \<Rightarrow> hand" where
  "flat_hand n = replicate n (Some \<lparr>lm_x = 0.5, lm_y = 0.5, lm_z = 0\<rparr>)"

text \<open>
  A hand of 21 landmarks with the index and middle fingertips raised and the ring
  fingertip lowered.
\<close>

definition peace_hand :: hand where
  "peace_hand =
     (flat_hand 21)
       [8 := Some \<lparr>lm_x = 0.5, lm_y = 0.2, lm_z = 0\<rparr>,
        12 := Some \<lparr>lm_x = 0.5, lm_y = 0.2, lm_z = 0\<rparr>,
        16 := Some \<lparr>lm_x = 0.5, lm_y = 0.8, lm_z = 0\<rparr>]"

text \<open>An array of 21 slots whose slot 0, the wrist, is empty: 20 landmarks.\<close>

definition wristless_hand :: hand where
  "wristless_hand = (flat_hand 21)[0 := None]"

text \<open>The tracker globals as the script initialises them.\<close>

definition idle_tracking :: tracking where
  "idle_tracking =
     \<lparr>handDistance = 1.0, handGesture = Neutral, targetHandPosition = Vector3 0 0 0,
      targetHandRotationZ = 0, targetHandRotationY = 0, lastHandPosition = None,
      gestureHistory = [], lockOnExit = True\<rparr>"

section \<open>Numbers that may be NaN\<close>

text \<open>
  The elements of a \<^verbatim>\<open>Float32Array\<close> and the intermediate values of the morph are
  JavaScript numbers that may be infinite or NaN. \<open>Fin r\<close> is the finite number \<open>r\<close> (one
  zero). The operations on doubles are exact on finite numbers and follow IEEE 754 on the
  special values; a finite non-zero number divided by zero is an infinity and \<open>0 / 0\<close> is
  NaN. A zero divisor counts as positive zero, which is what \<^verbatim>\<open>Math.sqrt\<close> of a sum of
  squares returns.
\<close>

datatype jsnum = Fin real | PInf | NInf | NaN

fun jneg :: "jsnum \<Rightarrow> jsnum" where
  "jneg (Fin a) = Fin (- a)"
| "jneg PInf = NInf"
| "jneg NInf = PInf"
| "jneg NaN = NaN"

fun jadd :: "jsnum \<Rightarrow> jsnum \<Rightarrow> jsnum" where
  "jadd (Fin a) (Fin b) = Fin (a + b)"
| "jadd NaN _ = NaN"
| "jadd _ NaN = NaN"
| "jadd PInf NInf = NaN"
| "jadd NInf PInf = NaN"
| "jadd PInf _ = PInf"
| "jadd _ PInf = PInf"
| "jadd NInf _ = NInf"
| "jadd _ NInf = NInf"

fun jmul :: "jsnum \<Rightarrow> jsnum \<Rightarrow> jsnum" where
  "jmul (Fin a) (Fin b) = Fin (a * b)"
| "jmul NaN _ = NaN"
| "jmul _ NaN = NaN"
| "jmul (Fin a) PInf = (if a = 0 then NaN else if a > 0 then PInf else NInf)"
| "jmul (Fin a) NInf = (if a = 0 then NaN else if a > 0 then NInf else PInf)"
| "jmul PInf (Fin b) = (if b = 0 then NaN else if b > 0 then PInf else NInf)"
| "jmul NInf (Fin b) = (if b = 0 then NaN else if b > 0 then NInf else PInf)"
| "jmul PInf PInf = PInf"
| "jmul NInf NInf = PInf"
| "jmul PInf NInf = NInf"
| "jmul NInf PInf = NInf"

fun jdiv :: "jsnum \<Rightarrow> jsnum \<Rightarrow> jsnum" where
  "jdiv (Fin a) (Fin b) =
     (if b \<noteq> 0 then Fin (a / b)
      else if a = 0 then NaN
      else if a > 0 then PInf else NInf)"
| "jdiv NaN _ = NaN"
| "jdiv _ NaN = NaN"
| "jdiv (Fin a) _ = Fin 0"
| "jdiv PInf (Fin b) = (if b \<ge> 0 then PInf else NInf)"
| "jdiv NInf (Fin b) = (if b \<ge> 0 then NInf else PInf)"
| "jdiv _ _ = NaN"

fun jsqrt :: "jsnum \<Rightarrow> jsnum" where
  "jsqrt (Fin a) = (if a \<ge> 0 then Fin (sqrt a) else NaN)"
| "jsqrt PInf = PInf"
| "jsqrt _ = NaN"

fun jsin :: "jsnum \<Rightarrow> jsnum" where
  "jsin (Fin a) = Fin (sin a)"
| "jsin _ = NaN"

fun jcos :: "jsnum \<Rightarrow> jsnum" where
  "jcos (Fin a) = Fin (cos a)"
| "jcos _ = NaN"

fun is_NaN :: "jsnum \<Rightarrow> bool" where
  "is_NaN NaN = True"
| "is_NaN _ = False"

instantiation jsnum :: "{plus, minus, uminus, times, inverse}"
begin

definition plus_jsnum :: "jsnum \<Rightarrow> jsnum \<Rightarrow> jsnum" where
  "plus_jsnum a b = jadd a b"

definition minus_jsnum :: "jsnum \<Rightarrow> jsnum \<Rightarrow> jsnum" where
  "minus_jsnum a b = jadd a (jneg b)"

definition uminus_jsnum :: "jsnum \<Rightarrow> jsnum" where
  "uminus_jsnum a = jneg a"

definition times_jsnum :: "jsnum \<Rightarrow> jsnum \<Rightarrow> jsnum" where
  "times_jsnum a b = jmul a b"

definition divide_jsnum :: "jsnum \<Rightarrow> jsnum \<Rightarrow> jsnum" where
  "divide_jsnum a b = jdiv a b"

definition inverse_jsnum :: "jsnum \<Rightarrow> jsnum" where
  "inverse_jsnum a = jdiv (Fin 1) a"

instance ..

end

subsection \<open>Rounding to binary32\<close>

text \<open>
  The finite binary32 numbers are the \<open>m * 2 ^ e\<close> with \<open>\<bar>m\<bar> < 2 ^ 24\<close> and
  \<open>- 149 \<le> e \<le> 104\<close>. \<open>binade x\<close> is the exponent of the power of two at or below
  \<open>\<bar>x\<bar>\<close>, and \<open>- 126\<close> for the subnormal numbers; the spacing of the binary32 numbers
  around \<open>x\<close> is \<open>2\<close> to the power \<open>binade x - 23\<close>.
\<close>

definition binade :: "real \<Rightarrow> int" where
  "binade x = max (- 126) \<lfloor>log 2 \<bar>x\<bar>\<rfloor>"

text \<open>The nearest integer, the even one of two that are equally near.\<close>

definition round_half_even :: "real \<Rightarrow> int" where
  "round_half_even y =
     (let f = \<lfloor>y\<rfloor>
      in if y - of_int f < 1 / 2 then f
         else if y - of_int f > 1 / 2 then f + 1
         else if even f then f else f + 1)"

text \<open>
  The conversion of a finite number to binary32, as \<^verbatim>\<open>Math.fround\<close> and every store into
  a \<^verbatim>\<open>Float32Array\<close> make it: the nearest binary32 number, ties to even, and an infinity
  when the rounded magnitude reaches \<open>2 ^ 128\<close>.
\<close>

definition fround :: "real \<Rightarrow> jsnum" where
  "fround x =
     (if x = 0 then Fin 0
      else (let u = 2 powr (of_int (binade x) - 23);
                v = of_int (round_half_even (x / u)) * u
            in if \<bar>v\<bar> \<ge> 2 powr 128 then (if x > 0 then PInf else NInf) else Fin v))"

fun f32 :: "jsnum \<Rightarrow> jsnum" where
  "f32 (Fin x) = fround x"
| "f32 v = v"

subsection \<open>Typed arrays\<close>

text \<open>
  A \<^verbatim>\<open>Float32Array\<close> is a list of numbers. Reading past the end gives \<^verbatim>\<open>undefined\<close>,
  which arithmetic turns into NaN; a store rounds the value to binary32, and past the end
  it does nothing.
\<close>

type_synonym f32array = "jsnum list"

definition f32_get :: "f32array \<Rightarrow> nat \<Rightarrow> jsnum" where
  "f32_get a i = (if i < length a then a ! i else NaN)"

definition f32_set :: "f32array \<Rightarrow> nat \<Rightarrow> jsnum \<Rightarrow> f32array" where
  "f32_set a i v = (if i < length a then a[i := f32 v] else a)"

section \<open>Tint\<close>

record color =
  col_r :: real
  col_g :: real
  col_b :: real

definition Color :: "real \<Rightarrow> real \<Rightarrow> real \<Rightarrow> color" where
  "Color r g b = \<lparr>col_r = r, col_g = g, col_b = b\<rparr>"

text \<open>\<^verbatim>\<open>Color.lerp(color, alpha)\<close> and \<^verbatim>\<open>Color.multiplyScalar(s)\<close> of three.js.\<close>

definition color_lerp :: "color \<Rightarrow> color \<Rightarrow> real \<Rightarrow> color" where
  "color_lerp c target alpha =
     Color (col_r c + (col_r target - col_r c) * alpha)
           (col_g c + (col_g target - col_g c) * alpha)
           (col_b c + (col_b target - col_b c) * alpha)"

definition multiplyScalar :: "color \<Rightarrow> real \<Rightarrow> color" where
  "multiplyScalar c s = Color (col_r c * s) (col_g c * s) (col_b c * s)"

record material =
  mat_color :: color
  mat_size :: real

text \<open>
  Step 3 of \<open>animate\<close> (the tint), which runs when the solar system is not shown: the
  gesture picks the target tint and the point size (\<open>tint_target\<close>: closed, open, any
  other), the material colour moves towards the target, and each channel is then raised to
  0.3 at least.
\<close>

fun tint_target :: "gesture \<Rightarrow> color \<times> real" where
  "tint_target Closed = (Color 1.5 0.9 0.2, 1.0)"
| "tint_target Open = (Color 0.5 1.0 1.3, 3.0)"
| "tint_target _ = (Color 1.0 1.0 1.0, 1.8)"

definition animate_tint :: "gesture \<Rightarrow> material \<Rightarrow> material" where
  "animate_tint handGesture' m =
     (let targetTintColor = fst (tint_target handGesture');
          size = snd (tint_target handGesture');
          c = color_lerp (mat_color m) targetTintColor 0.15
      in \<lparr>mat_color = Color (max 0.3 (col_r c)) (max 0.3 (col_g c)) (max 0.3 (col_b c)),
          mat_size = size\<rparr>)"

text \<open>
  \<open>changeColor\<close>, the handler of the colour picker: \<open>selectedColor\<close> is the colour the
  picker's value denotes.
\<close>

definition changeColor :: "color \<Rightarrow> material \<Rightarrow> material" where
  "changeColor selectedColor m = m\<lparr>mat_color := color_lerp (mat_color m) selectedColor 0.3\<rparr>"

text \<open>The two operations that blend the tint, and a run of them.\<close>

datatype tint_op = AnimateTint gesture | ChangeColor color

fun tint_step :: "material \<Rightarrow> tint_op \<Rightarrow> material" where
  "tint_step m (AnimateTint g) = animate_tint g m"
| "tint_step m (ChangeColor c) = changeColor c m"

definition tint_run :: "tint_op list \<Rightarrow> material \<Rightarrow> material" where
  "tint_run ops m = foldl tint_step m ops"

definition channels_at_least :: "real \<Rightarrow> color \<Rightarrow> bool" where
  "channels_at_least lo c = (lo \<le> col_r c \<and> lo \<le> col_g c \<and> lo \<le> col_b c)"

text \<open>Thirteen frames of the closed gesture.\<close>

definition thirteen_closed_frames :: "tint_op list" where
  "thirteen_closed_frames =
     [AnimateTint Closed, AnimateTint Closed, AnimateTint Closed, AnimateTint Closed,
      AnimateTint Closed, AnimateTint Closed, AnimateTint Closed, AnimateTint Closed,
      AnimateTint Closed, AnimateTint Closed, AnimateTint Closed, AnimateTint Closed,
      AnimateTint Closed]"

text \<open>The material \<open>createParticles\<close> makes: white, size 1.9.\<close>

definition initial_material :: material where
  "initial_material = \<lparr>mat_color = Color 1 1 1, mat_size = 1.9\<rparr>"

section \<open>Morph\<close>

definition morphSpeed :: real where
  "morphSpeed = 0.08"

text \<open>
  The body of the loop of the closed gesture in \<open>animate\<close>, for one particle: \<open>b\<close> is its
  entry of \<^verbatim>\<open>spherePositions\<close>, \<open>cur\<close> its entry of the position buffer.
  \<open>morph_closed_value\<close> is the three values the body computes, \<open>morph_closed_particle\<close>
  what the buffer holds for the particle after the three stores.
\<close>

definition morph_closed_value ::
  "real \<Rightarrow> jsnum \<times> jsnum \<times> jsnum \<Rightarrow> jsnum \<times> jsnum \<times> jsnum \<Rightarrow> jsnum \<times> jsnum \<times> jsnum" where
  "morph_closed_value time b cur =
     (case b of (bx, by, bz) \<Rightarrow> case cur of (cx, cy, cz) \<Rightarrow>
        (let dist = jsqrt (bx * bx + by * by + bz * bz);
             nx = bx / dist;
             ny = by / dist;
             nz = bz / dist;
             noise =
               jsin (nx * Fin 4 + Fin time) * jcos (ny * Fin 4 + Fin time)
                   * jsin (nz * Fin 4 + Fin (time * 1.5))
                 + jsin (nx * Fin 10 - Fin (time * 2)) * Fin 0.5;
             scaleVar = Fin 1.0 + noise * Fin 0.05
         in (cx + (bx * scaleVar - cx) * Fin morphSpeed,
             cy + (by * scaleVar - cy) * Fin morphSpeed,
             cz + (bz * scaleVar - cz) * Fin morphSpeed)))"

definition morph_closed_particle ::
  "real \<Rightarrow> jsnum \<times> jsnum \<times> jsnum \<Rightarrow> jsnum \<times> jsnum \<times> jsnum \<Rightarrow> jsnum \<times> jsnum \<times> jsnum" where
  "morph_closed_particle time b cur =
     (case morph_closed_value time b cur of (x, y, z) \<Rightarrow> (f32 x, f32 y, f32 z))"

section \<open>Shape generator\<close>

subsection \<open>Random numbers\<close>

text \<open>
  The values \<^verbatim>\<open>Math.random()\<close> returns, in the order of the calls, are a sequence
  \<open>draws\<close>; a function that calls \<^verbatim>\<open>Math.random()\<close> takes the sequence and the index
  \<open>n\<close> of the next value, and returns the index after its last call. Every value of
  \<^verbatim>\<open>Math.random()\<close> is at least 0 and less than 1.
\<close>

type_synonym rng = "nat \<Rightarrow> real"

definition unit_draws :: "rng \<Rightarrow> bool" where
  "unit_draws draws = (\<forall>k. 0 \<le> draws k \<and> draws k < 1)"

text \<open>
  \<^verbatim>\<open>Vector3.setFromSphericalCoords(radius, phi, theta)\<close> of three.js:
  \<^verbatim>\<open>sinPhiRadius = sin(phi) * radius; x = sinPhiRadius * sin(theta); y = cos(phi) * radius;
  z = sinPhiRadius * cos(theta)\<close>.
\<close>

definition setFromSphericalCoords :: "real \<Rightarrow> real \<Rightarrow> real \<Rightarrow> vec3" where
  "setFromSphericalCoords radius phi theta =
     (let sinPhiRadius = sin phi * radius
      in Vector3 (sinPhiRadius * sin theta) (cos phi * radius) (sinPhiRadius * cos theta))"

subsection \<open>Templates\<close>

text \<open>
  A template sets the position of particle \<open>i\<close>. The models return the position and the
  index of the next draw; \<open>particleCount\<close> (35000 in the script) is a parameter.
  \<^verbatim>\<open>Math.acos\<close> is \<open>arccos\<close>, which is what it computes on \<open>[-1, 1]\<close>, where its
  arguments lie when the draws lie in \<open>[0, 1)\<close>.
\<close>

definition galaxy :: "rng \<Rightarrow> nat \<Rightarrow> vec3 \<times> nat" where
  "galaxy draws n =
     (let isBulge = draws n < 0.15
      in if isBulge
         then (let r = draws (n + 1) * 25;
                   theta = draws (n + 2) * pi * 2;
                   phi = arccos (draws (n + 3) * 2 - 1)
               in (setFromSphericalCoords r phi theta, n + 4))
         else (let armIndex = real_of_int \<lfloor>draws (n + 1) * 2\<rfloor>;
                   t = draws (n + 2) * pi * 4;
                   r = 20 + t * 15;
                   angle = t + armIndex * pi + draws (n + 3) * 0.5;
                   diskThickness = 8;
                   z = (draws (n + 4) - 0.5) * diskThickness * (1 - r / 100);
                   x = r * cos angle * (1 + draws (n + 5) * 0.3);
                   y = r * sin angle * (1 + draws (n + 6) * 0.3)
               in (Vector3 x y z, n + 7)))"

definition spiral :: "nat \<Rightarrow> rng \<Rightarrow> nat \<Rightarrow> nat \<Rightarrow> vec3 \<times> nat" where
  "spiral particleCount draws n i =
     (let t = (real i / real particleCount) * pi * 6;
          r = 15 + t * 12;
          angle = t * 2;
          z = (draws n - 0.5) * 10
      in (Vector3 (r * cos angle) (r * sin angle) z, n + 1))"

definition barred :: "rng \<Rightarrow> nat \<Rightarrow> vec3 \<times> nat" where
  "barred draws n =
     (let isBar = draws n < 0.2
      in if isBar
         then (let barLength = 40;
                   x = (draws (n + 1) - 0.5) * barLength;
                   y = (draws (n + 2) - 0.5) * 8;
                   z = (draws (n + 3) - 0.5) * 5
               in (Vector3 x y z, n + 4))
         else (let armSide = (if draws (n + 1) < 0.5 then - 1 else 1);
                   t = draws (n + 2) * pi * 3;
                   r = 25 + t * 10;
                   angle = t + (armSide * 20 * pi) / 180;
                   z = (draws (n + 3) - 0.5) * 8
               in (Vector3 (r * cos angle) (r * sin angle) z, n + 4)))"

definition sphere_template :: "rng \<Rightarrow> nat \<Rightarrow> vec3 \<times> nat" where
  "sphere_template draws n =
     (setFromSphericalCoords (draws n * 80 + 20)
        (arccos (draws (n + 1) * 2 - 1))
        (draws (n + 2) * pi * 2),
      n + 3)"

definition heart :: "nat \<Rightarrow> rng \<Rightarrow> nat \<Rightarrow> nat \<Rightarrow> vec3 \<times> nat" where
  "heart particleCount draws n i =
     (let t = (real i / real particleCount) * 2 * pi;
          scale = 35;
          x = scale * 16 * (sin t) ^ 3;
          y = - scale * (13 * cos t - 5 * cos (2 * t) - 2 * cos (3 * t) - cos (4 * t));
          z = (draws n - 0.5) * 5
      in (Vector3 x (y + 20) z, n + 1))"

definition flower :: "nat \<Rightarrow> nat \<Rightarrow> nat \<Rightarrow> vec3 \<times> nat" where
  "flower particleCount n i =
     (let t = (real i / real particleCount) * 4 * pi;
          scale = 25;
          x = scale * sin t * cos (t * 5);
          y = scale * cos t * cos (t * 5);
          z = scale * sin (t * 5)
      in (Vector3 x y z, n))"

text \<open>
  The loop of the saturn template that draws the radius of a ring particle. It runs until
  a radius is accepted, so it need not return: \<open>None\<close> is the run that goes on forever.
  The result is the accepted radius and the index of the next draw.
\<close>

partial_function (option) ring_radius :: "rng \<Rightarrow> nat \<Rightarrow> (real \<times> nat) option" where
  "ring_radius draws n =
     (let r = draws n * 50 + 40
      in if r > 68 \<and> r < 72
         then (if draws (n + 1) < 0.1 then Some (r, n + 2) else ring_radius draws (n + 2))
         else Some (r, n + 1))"

definition saturn :: "nat \<Rightarrow> rng \<Rightarrow> nat \<Rightarrow> nat \<Rightarrow> (vec3 \<times> nat) option" where
  "saturn particleCount draws n i =
     (let isRing = draws n < 0.7;
          tilt = (27 * pi) / 180;
          cosTilt = cos tilt;
          sinTilt = sin tilt
      in if isRing
         then (case ring_radius draws (n + 1) of
                 None \<Rightarrow> None
               | Some (r, n') \<Rightarrow>
                   (let theta = (real i / real particleCount) * pi * 2 * 20 + draws n';
                        x = r * cos theta;
                        y = (draws (n' + 1) - 0.5) * 0.5;
                        z = r * sin theta;
                        xp = x * cosTilt - y * sinTilt;
                        yp = x * sinTilt + y * cosTilt;
                        zp = z
                    in Some (Vector3 xp yp zp, n' + 2)))
         else (let r = 30;
                   theta = draws (n + 1) * pi * 2;
                   phi = arccos (draws (n + 2) * 2 - 1);
                   x = r * sin phi * cos theta;
                   y = r * cos phi;
                   z = r * sin phi * sin theta;
                   y' = y * 0.9;
                   xp = x * cosTilt - y' * sinTilt;
                   yp = x * sinTilt + y' * cosTilt;
                   zp = z
               in Some (Vector3 xp yp zp, n + 3)))"

definition earth :: "rng \<Rightarrow> nat \<Rightarrow> nat \<Rightarrow> vec3 \<times> nat" where
  "earth draws n i =
     (let tilt = (23.5 * pi) / 180;
          cosTilt = cos tilt;
          sinTilt = sin tilt;
          r = (if i mod 20 = 0 then 37 else 35);
          theta = draws n * pi * 2;
          phi = arccos (draws (n + 1) * 2 - 1);
          x = r * sin phi * cos theta;
          y = r * cos phi;
          z = r * sin phi * sin theta;
          xp = x * cosTilt - y * sinTilt;
          yp = x * sinTilt + y * cosTilt;
          zp = z
      in (Vector3 xp yp zp, n + 2))"

definition buddha :: "rng \<Rightarrow> nat \<Rightarrow> vec3 \<times> nat" where
  "buddha draws n =
     (let r = draws n * 20;
          t = draws (n + 1) * pi * 2;
          y_base = draws (n + 2) * 80;
          x = r * cos t * (1 - y_base / 80);
          z = r * sin t * (1 - y_base / 80)
      in (Vector3 x (y_base - 40) z, n + 3))"

definition fireworks :: "rng \<Rightarrow> nat \<Rightarrow> vec3 \<times> nat" where
  "fireworks draws n =
     (setFromSphericalCoords (draws n * 100)
        (arccos (draws (n + 1) * 2 - 1))
        (draws (n + 2) * pi * 2),
      n + 3)"

text \<open>The own keys of the object \<^verbatim>\<open>templates\<close>, in the order of the source.\<close>

definition templateKeys :: "string list" where
  "templateKeys =
     [''galaxy'', ''spiral'', ''barred'', ''sphere'', ''heart'', ''flower'', ''saturn'',
      ''earth'', ''buddha'', ''fireworks'']"

text \<open>
  \<^verbatim>\<open>templates[key]\<close> also finds what the object inherits from \<^verbatim>\<open>Object.prototype\<close>.
  Called as \<^verbatim>\<open>templates[key](position, i)\<close>, the inherited functions listed here return
  without an exception and without touching \<open>position\<close>.
\<close>

definition inherited_functions :: "string list" where
  "inherited_functions =
     [''constructor'', ''hasOwnProperty'', ''isPrototypeOf'', ''propertyIsEnumerable'',
      ''toLocaleString'', ''toString'', ''valueOf'', ''__lookupGetter__'',
      ''__lookupSetter__'']"

text \<open>
  The call \<^verbatim>\<open>templates[currentTemplate](position, i)\<close>: the new value of \<open>position\<close> and
  the index of the next draw, or the exception. For any other key the value is
  \<^verbatim>\<open>undefined\<close>, or something that is not a function or that throws on these arguments
  (\<^verbatim>\<open>__proto__\<close>, \<^verbatim>\<open>__defineGetter__\<close>, \<^verbatim>\<open>__defineSetter__\<close>): a \<^verbatim>\<open>TypeError\<close>.
\<close>

definition call_template ::
  "string \<Rightarrow> nat \<Rightarrow> rng \<Rightarrow> nat \<Rightarrow> vec3 \<Rightarrow> nat \<Rightarrow> (js_error + vec3 \<times> nat) option" where
  "call_template key particleCount draws n position i =
     (if key = ''galaxy'' then Some (Inr (galaxy draws n))
      else if key = ''spiral'' then Some (Inr (spiral particleCount draws n i))
      else if key = ''barred'' then Some (Inr (barred draws n))
      else if key = ''sphere'' then Some (Inr (sphere_template draws n))
      else if key = ''heart'' then Some (Inr (heart particleCount draws n i))
      else if key = ''flower'' then Some (Inr (flower particleCount n i))
      else if key = ''saturn'' then map_option Inr (saturn particleCount draws n i)
      else if key = ''earth'' then Some (Inr (earth draws n i))
      else if key = ''buddha'' then Some (Inr (buddha draws n))
      else if key = ''fireworks'' then Some (Inr (fireworks draws n))
      else if key \<in> set inherited_functions then Some (Inr (position, n))
      else Some (Inl TypeError))"

subsection \<open>Colours\<close>

text \<open>\<^verbatim>\<open>palette[colorIndex].clone()\<close>: outside the palette the element is \<^verbatim>\<open>undefined\<close>.\<close>

definition palette_at :: "color list \<Rightarrow> int \<Rightarrow> js_error + color" where
  "palette_at palette colorIndex =
     (if 0 \<le> colorIndex \<and> colorIndex < int (length palette)
      then Inr (palette ! nat colorIndex) else Inl TypeError)"

definition clamp01 :: "real \<Rightarrow> real" where
  "clamp01 v = max 0.0 (min 1.0 v)"

definition getGalaxyColor :: "vec3 \<Rightarrow> rng \<Rightarrow> nat \<Rightarrow> js_error + color \<times> nat" where
  "getGalaxyColor position draws n =
     (let distance =
            sqrt (vec_x position * vec_x position + vec_y position * vec_y position
                    + vec_z position * vec_z position);
          maxDistance = 100;
          normalizedDist = min (distance / maxDistance) 1.0;
          centerColors = [Color 1.0 0.95 0.85, Color 1.0 0.9 0.75, Color 0.95 0.85 0.7];
          armColors =
            [Color 0.9 0.95 1.0, Color 0.7 0.85 1.0, Color 0.5 0.7 1.0, Color 0.6 0.8 1.0];
          outerColors = [Color 0.4 0.5 0.8, Color 0.5 0.4 0.7, Color 0.6 0.5 0.8];
          picked =
            (if normalizedDist < 0.25
             then map_sum id (\<lambda>c. multiplyScalar c (1.1 + draws (n + 1) * 0.2))
                    (palette_at centerColors \<lfloor>draws n * real (length centerColors)\<rfloor>)
             else if normalizedDist < 0.7
             then map_sum id (\<lambda>c. multiplyScalar c (0.9 + draws (n + 1) * 0.3))
                    (palette_at armColors \<lfloor>draws n * real (length armColors)\<rfloor>)
             else map_sum id (\<lambda>c. multiplyScalar c (0.7 + draws (n + 1) * 0.2))
                    (palette_at outerColors \<lfloor>draws n * real (length outerColors)\<rfloor>))
      in case picked of
           Inl e \<Rightarrow> Inl e
         | Inr finalColor \<Rightarrow>
             (let starVariation = 0.1;
                  r = col_r finalColor + (draws (n + 2) - 0.5) * starVariation;
                  g = col_g finalColor + (draws (n + 3) - 0.5) * starVariation;
                  b = col_b finalColor + (draws (n + 4) - 0.5) * starVariation
              in Inr (Color (clamp01 r) (clamp01 g) (clamp01 b), n + 5)))"

definition getSaturnColor :: "vec3 \<Rightarrow> rng \<Rightarrow> nat \<Rightarrow> color \<times> nat" where
  "getSaturnColor position draws n =
     (let distSq =
            vec_x position * vec_x position + vec_y position * vec_y position
              + vec_z position * vec_z position;
          dist = sqrt distSq
      in if dist > 35
         then (let band = dist;
                   c = (if band > 68 \<and> band < 72 then Color 0.1 0.1 0.1
                        else if (band > 45 \<and> band < 55) \<or> (band > 75 \<and> band < 85)
                        then Color 0.85 0.8 0.7
                        else Color 0.75 0.65 0.5)
               in (multiplyScalar c (0.8 + draws n * 0.4), n + 1))
         else (let tilt = (- 27 * pi) / 180;
                   cosT = cos tilt;
                   sinT = sin tilt;
                   localY = vec_x position * sinT + vec_y position * cosT;
                   absY = \<bar>localY\<bar>;
                   color =
                     (if absY > 25 then Color 0.35 0.35 0.3
                      else if absY > 18 then Color 0.7 0.65 0.5
                      else if absY > 10 then Color 0.8 0.7 0.5
                      else if absY > 3 then Color 0.85 0.75 0.55
                      else Color 0.9 0.8 0.6)
               in (multiplyScalar color (0.9 + draws n * 0.2), n + 1)))"

definition getEarthColor :: "vec3 \<Rightarrow> rng \<Rightarrow> nat \<Rightarrow> color \<times> nat" where
  "getEarthColor position draws n =
     (let tilt = (- 23.5 * pi) / 180;
          cosT = cos tilt;
          sinT = sin tilt;
          localX = vec_x position * cosT - vec_y position * sinT;
          localY = vec_x position * sinT + vec_y position * cosT;
          localZ = vec_z position;
          dist = sqrt (localX * localX + localY * localY + localZ * localZ)
      in if dist > 36 then (Color 1.0 1.0 1.0, n)
         else (let lat = localY;
                   absLat = \<bar>lat\<bar>
               in if absLat > 28 then (Color 0.95 0.98 1.0, n)
                  else (let nX = localX * 0.12;
                            nY = localY * 0.12;
                            nZ = localZ * 0.12;
                            noise =
                              sin nX * cos nY + sin (nY * 2.1 + nZ) * 0.5
                                + cos (nZ * 1.5 + nX) * 0.3
                        in if draws n > 0.95 then (Color 1.0 1.0 1.0, n + 1)
                           else if noise > 0.2
                           then (if noise > 0.6 \<and> absLat < 20 then (Color 0.05 0.35 0.05, n + 1)
                                 else if absLat < 22 then (Color 0.2 0.5 0.2, n + 1)
                                 else if absLat > 25 then (Color 0.6 0.6 0.6, n + 1)
                                 else (Color 0.5 0.4 0.25, n + 1))
                           else (if noise < - 0.5 then (Color 0.0 0.1 0.4, n + 1)
                                 else (Color 0.0 0.3 0.7, n + 1)))))"

text \<open>The colour of a particle, by the current template.\<close>

definition particle_color :: "string \<Rightarrow> vec3 \<Rightarrow> rng \<Rightarrow> nat \<Rightarrow> js_error + color \<times> nat" where
  "particle_color currentTemplate' position draws n =
     (if currentTemplate' = ''saturn'' then Inr (getSaturnColor position draws n)
      else if currentTemplate' = ''earth'' then Inr (getEarthColor position draws n)
      else getGalaxyColor position draws n)"

subsection \<open>Particle buffers\<close>

text \<open>
  The typed arrays live in a store, \<open>heap\<close>, from addresses to array contents; the globals
  hold addresses. \<open>position_array\<close> is \<^verbatim>\<open>particles.geometry.attributes.position.array\<close>
  (a \<^verbatim>\<open>BufferAttribute\<close> keeps the array it is given), \<open>color_array\<close> the array of the
  colour attribute. \<open>particles_in_scene\<close> says whether the scene holds the particle system.
  Of \<open>toggleSolarSystem\<close> the model keeps the flag \<^verbatim>\<open>solarSystemEnabled\<close>; the camera and
  the visibility flags are left out, here and in \<open>animate\<close>.
\<close>

record scene =
  heap :: "nat \<Rightarrow> f32array"
  next_addr :: nat
  position_array :: nat
  color_array :: nat
  basePositions :: nat
  spherePositions :: nat
  particles_in_scene :: bool
  scene_material :: material
  currentTemplate :: string
  solarSystemEnabled :: bool

text \<open>Writing the three coordinates of entry \<open>i\<close>.\<close>

definition write3 :: "f32array \<Rightarrow> nat \<Rightarrow> real \<Rightarrow> real \<Rightarrow> real \<Rightarrow> f32array" where
  "write3 a i u v w =
     f32_set (f32_set (f32_set a (i * 3) (Fin u)) (i * 3 + 1) (Fin v)) (i * 3 + 2) (Fin w)"

text \<open>
  The state of the first loop of \<open>createParticles\<close>: the vector \<open>position\<close> the templates
  write to, the two new arrays and the index of the next draw.
\<close>

record fill_state =
  fs_position :: vec3
  fs_positions :: f32array
  fs_colors :: f32array
  fs_next :: nat

definition fill_body ::
  "string \<Rightarrow> nat \<Rightarrow> rng \<Rightarrow> nat \<Rightarrow> fill_state \<Rightarrow> (js_error + fill_state) option" where
  "fill_body key particleCount draws i s =
     (case call_template key particleCount draws (fs_next s) (fs_position s) i of
        None \<Rightarrow> None
      | Some (Inl e) \<Rightarrow> Some (Inl e)
      | Some (Inr (position, n1)) \<Rightarrow>
          (case particle_color key position draws n1 of
             Inl e \<Rightarrow> Some (Inl e)
           | Inr (color, n2) \<Rightarrow>
               Some (Inr \<lparr>fs_position = position,
                          fs_positions =
                            write3 (fs_positions s) i
                              (vec_x position) (vec_y position) (vec_z position),
                          fs_colors =
                            write3 (fs_colors s) i (col_r color) (col_g color) (col_b color),
                          fs_next = n2\<rparr>)))"

fun fill_loop ::
  "string \<Rightarrow> nat \<Rightarrow> rng \<Rightarrow> nat list \<Rightarrow> fill_state \<Rightarrow> (js_error + fill_state) option" where
  "fill_loop key particleCount draws [] s = Some (Inr s)"
| "fill_loop key particleCount draws (i # rest) s =
     (case fill_body key particleCount draws i s of
        None \<Rightarrow> None
      | Some (Inl e) \<Rightarrow> Some (Inl e)
      | Some (Inr s') \<Rightarrow> fill_loop key particleCount draws rest s')"

text \<open>
  Before the loop: \<^verbatim>\<open>position = new THREE.Vector3()\<close> and two new arrays of
  \<open>particleCount * 3\<close> zeros.
\<close>

definition fresh_fill :: "nat \<Rightarrow> nat \<Rightarrow> fill_state" where
  "fresh_fill particleCount n =
     \<lparr>fs_position = Vector3 0 0 0, fs_positions = replicate (particleCount * 3) (Fin 0),
      fs_colors = replicate (particleCount * 3) (Fin 0), fs_next = n\<rparr>"

text \<open>The second loop: the compressed sphere.\<close>

definition sphere_body :: "rng \<Rightarrow> nat \<Rightarrow> f32array \<times> nat \<Rightarrow> f32array \<times> nat" where
  "sphere_body draws i s =
     (case s of (arr, n) \<Rightarrow>
        (let tempVec =
               setFromSphericalCoords (draws n * 30)
                 (arccos (draws (n + 1) * 2 - 1))
                 (draws (n + 2) * pi * 2)
         in (write3 arr i (vec_x tempVec) (vec_y tempVec) (vec_z tempVec), n + 3)))"

text \<open>
  \<open>createParticles\<close>. The result is \<open>None\<close> when the run does not end; otherwise the scene
  at the exception with the exception, or the new scene with the index of the next draw.
  A new \<^verbatim>\<open>Float32Array\<close> holds zeros; \<^verbatim>\<open>new Float32Array(positions)\<close> is a copy at an
  address of its own.
\<close>

definition createParticles ::
  "nat \<Rightarrow> rng \<Rightarrow> nat \<Rightarrow> scene \<Rightarrow> (js_error \<times> scene + scene \<times> nat) option" where
  "createParticles particleCount draws n st =
     (let st0 = st\<lparr>particles_in_scene := False\<rparr>;
          zeros = replicate (particleCount * 3) (Fin 0)
      in case fill_loop (currentTemplate st) particleCount draws [0..<particleCount]
                (fresh_fill particleCount n) of
           None \<Rightarrow> None
         | Some (Inl e) \<Rightarrow> Some (Inl (e, st0))
         | Some (Inr filled) \<Rightarrow>
             (let a = next_addr st;
                  sphere = fold (sphere_body draws) [0..<particleCount] (zeros, fs_next filled)
              in Some (Inr (st0\<lparr>heap :=
                                   (heap st)(a := fs_positions filled,
                                             a + 1 := fs_colors filled,
                                             a + 2 := fs_positions filled,
                                             a + 3 := fst sphere),
                                 next_addr := a + 4,
                                 position_array := a,
                                 color_array := a + 1,
                                 basePositions := a + 2,
                                 spherePositions := a + 3,
                                 scene_material := initial_material,
                                 particles_in_scene := True\<rparr>,
                            snd sphere))))"

definition toggleSolarSystem :: "bool \<Rightarrow> scene \<Rightarrow> scene" where
  "toggleSolarSystem show st = st\<lparr>solarSystemEnabled := show\<rparr>"

text \<open>\<open>changeTemplate\<close>, with \<open>value\<close> the value of the selector.\<close>

definition changeTemplate ::
  "string \<Rightarrow> nat \<Rightarrow> rng \<Rightarrow> nat \<Rightarrow> scene \<Rightarrow> (js_error \<times> scene + scene \<times> nat) option" where
  "changeTemplate value particleCount draws n st =
     (if value = ''solarsystem'' then Some (Inr (toggleSolarSystem True st, n))
      else createParticles particleCount draws n
             ((toggleSolarSystem False st)\<lparr>currentTemplate := value\<rparr>))"

section \<open>Explosion\<close>

definition explode_point :: "rng \<Rightarrow> nat \<Rightarrow> vec3" where
  "explode_point draws n =
     setFromSphericalCoords (draws n * 300 + 50)
       (arccos (draws (n + 1) * 2 - 1))
       (draws (n + 2) * pi * 2)"

definition explode_body :: "rng \<Rightarrow> nat \<Rightarrow> f32array \<times> nat \<Rightarrow> f32array \<times> nat" where
  "explode_body draws i s =
     (case s of (positions, n) \<Rightarrow>
        (let tempPos = explode_point draws n
         in (write3 positions i (vec_x tempPos) (vec_y tempPos) (vec_z tempPos), n + 3)))"

text \<open>
  \<open>explodeUniverse\<close>: \<open>count\<close> is \<^verbatim>\<open>positions.length / 3\<close>, and the loop runs for the
  naturals below it.
\<close>

definition explodeUniverse :: "rng \<Rightarrow> nat \<Rightarrow> scene \<Rightarrow> scene \<times> nat" where
  "explodeUniverse draws n st =
     (let positions = heap st (position_array st);
          count = real (length positions) / 3;
          exploded = fold (explode_body draws) [0..<nat \<lceil>count\<rceil>] (positions, n)
      in (st\<lparr>heap := (heap st)(position_array st := fst exploded)\<rparr>, snd exploded))"

section \<open>The particle part of a frame\<close>

text \<open>The loops of step 5 of \<open>animate\<close>, on the store.\<close>

definition morph_closed_body :: "real \<Rightarrow> nat \<Rightarrow> nat \<Rightarrow> nat \<Rightarrow> (nat \<Rightarrow> f32array) \<Rightarrow> nat \<Rightarrow> f32array" where
  "morph_closed_body time sphereAddr positionAddr i h =
     (let ix = i * 3; iy = i * 3 + 1; iz = i * 3 + 2;
          b = (f32_get (h sphereAddr) ix, f32_get (h sphereAddr) iy, f32_get (h sphereAddr) iz);
          cur = (f32_get (h positionAddr) ix, f32_get (h positionAddr) iy,
                 f32_get (h positionAddr) iz);
          new = morph_closed_value time b cur
      in h(positionAddr :=
             f32_set (f32_set (f32_set (h positionAddr) ix (fst new)) iy (fst (snd new)))
               iz (snd (snd new))))"

definition morph_open_body :: "nat \<Rightarrow> nat \<Rightarrow> nat \<Rightarrow> (nat \<Rightarrow> f32array) \<Rightarrow> nat \<Rightarrow> f32array" where
  "morph_open_body baseAddr positionAddr i h =
     h(positionAddr :=
         f32_set (h positionAddr) i
           (f32_get (h positionAddr) i
              + (f32_get (h baseAddr) i - f32_get (h positionAddr) i) * Fin morphSpeed))"

text \<open>
  Steps 3 to 5 of \<open>animate\<close>, which run when the solar system is not shown: the tint, the
  explosion on peace, and the morph on closed and open. \<open>time\<close> is the clock after its
  increment at the start of the frame.
\<close>

definition animate_particles ::
  "gesture \<Rightarrow> nat \<Rightarrow> real \<Rightarrow> rng \<Rightarrow> nat \<Rightarrow> scene \<Rightarrow> scene \<times> nat" where
  "animate_particles handGesture' particleCount time draws n st =
     (if solarSystemEnabled st then (st, n)
      else (let st1 = st\<lparr>scene_material := animate_tint handGesture' (scene_material st)\<rparr>;
                exploded = (if handGesture' = Peace then explodeUniverse draws n st1 else (st1, n));
                st2 = fst exploded;
                count = particleCount;
                h = (if handGesture' = Closed
                     then fold (morph_closed_body time (spherePositions st2) (position_array st2))
                            [0..<count] (heap st2)
                     else if handGesture' = Open
                     then fold (morph_open_body (basePositions st2) (position_array st2))
                            [0..<count * 3] (heap st2)
                     else heap st2)
            in (st2\<lparr>heap := h\<rparr>, snd exploded)))"

section \<open>Frames and observations\<close>

text \<open>
  The globals \<open>animate\<close> reads and writes besides the scene: the tracker globals, the clock
  \<^verbatim>\<open>time\<close>, the index of the next draw, rotation, scale and position of \<^verbatim>\<open>particles\<close> and
  of \<^verbatim>\<open>sunCore\<close>, and the mouse globals. The camera, the objects of the solar system and
  the rendering are left out.
\<close>

record transform =
  tf_rotation :: vec3
  tf_scale :: vec3
  tf_position :: vec3

record world =
  tracker :: tracking
  stage :: scene
  clock :: real
  next_draw :: nat
  particles :: transform
  sunCore :: transform
  isMouseDown :: bool
  targetRotationX :: real
  targetRotationY :: real

definition positionSmoothing :: real where
  "positionSmoothing = 0.15"

definition rotationSmoothing :: real where
  "rotationSmoothing = 0.1"

text \<open>
  \<open>animate\<close>, after it has requested the next frame: the clock, then, unless the solar
  system is shown, the rotation (step 1), the scale (step 2), the tint, the explosion and
  the morph (steps 3 to 5, \<open>animate_particles\<close>), the core, and the position that follows
  the hand (step 6).
\<close>

definition animate :: "nat \<Rightarrow> rng \<Rightarrow> world \<Rightarrow> world" where
  "animate particleCount draws w =
     (let time = clock w + 0.05;
          w1 = w\<lparr>clock := time\<rparr>
      in if solarSystemEnabled (stage w) then w1
         else
           (let tr = tracker w;
                r0 = tf_rotation (particles w);
                r1 =
                  (if isMouseDown w
                   then r0\<lparr>vec_x := vec_x r0 + (targetRotationX w - vec_x r0) * 0.05,
                           vec_y := vec_y r0 + (targetRotationY w - vec_y r0) * 0.05\<rparr>
                   else if length (gestureHistory tr) > 0
                   then r0\<lparr>vec_z :=
                             vec_z r0 + (targetHandRotationZ tr - vec_z r0) * rotationSmoothing,
                           vec_y :=
                             vec_y r0 + (targetHandRotationY tr - vec_y r0) * rotationSmoothing\<rparr>
                   else r0\<lparr>vec_y := vec_y r0 + 0.0008, vec_z := vec_z r0 + 0.0001\<rparr>);
                targetScale =
                  (if handGesture tr = Neutral \<and> handDistance tr \<noteq> 0.5
                   then (let minScale = 0.5; maxScale = 2.0
                         in minScale + (maxScale - minScale) * handDistance tr)
                   else if handGesture tr = Open then 2.5
                   else if handGesture tr = Closed then 0.7
                   else 1.0);
                s1 = vec_lerp (tf_scale (particles w))
                       (Vector3 targetScale targetScale targetScale) 0.1;
                frame =
                  animate_particles (handGesture tr) particleCount time draws (next_draw w)
                    (stage w);
                targetCoreScale =
                  (if handGesture tr = Closed then 0.8 + sin (time * 0.5) * 0.1 else 0);
                c1 = vec_lerp (tf_scale (sunCore w))
                       (Vector3 targetCoreScale targetCoreScale targetCoreScale) 0.1;
                p0 = tf_position (particles w);
                p1 = vec_lerp p0 (targetHandPosition tr) positionSmoothing
            in w1\<lparr>stage := fst frame,
                   next_draw := snd frame,
                   sunCore := \<lparr>tf_rotation = r1, tf_scale = c1, tf_position = p0\<rparr>,
                   particles := \<lparr>tf_rotation = r1, tf_scale = s1, tf_position = p1\<rparr>\<rparr>))"

text \<open>
  The two callbacks the browser runs: \<open>onResults\<close> on an observation of the hand tracker,
  \<open>animate\<close> on an animation frame. An exception that leaves a callback ends that call
  only, and the assignments made before it stay; \<open>animate\<close> has requested its next frame
  before anything else. Which events follow is the environment's choice: \<open>run\<close> serves any
  list of them.
\<close>

datatype event = Results "hand list option" | Frame

definition dispatch :: "nat \<Rightarrow> rng \<Rightarrow> event \<Rightarrow> world \<Rightarrow> world" where
  "dispatch particleCount draws ev w =
     (case ev of
        Results landmarks \<Rightarrow> w\<lparr>tracker := snd (onResults landmarks (tracker w))\<rparr>
      | Frame \<Rightarrow> animate particleCount draws w)"

definition run :: "nat \<Rightarrow> rng \<Rightarrow> event list \<Rightarrow> world \<Rightarrow> world" where
  "run particleCount draws events w =
     foldl (\<lambda>w' ev. dispatch particleCount draws ev w') w events"

section \<open>Notions used to state the properties of the particle system\<close>

text \<open>The Cassini gap of the ring radius, and an iteration of the loop that accepts.\<close>

definition in_gap :: "real \<Rightarrow> bool" where
  "in_gap r = (68 < r \<and> r < 72)"

definition accepted :: "rng \<Rightarrow> nat \<Rightarrow> bool" where
  "accepted draws n = (\<not> in_gap (draws n * 50 + 40) \<or> draws (n + 1) < 0.1)"

text \<open>
  Sequences of draws: every draw 0.58 (radius 69, in the gap, and no sparse pass); the
  same with a 0 as third draw; every draw 0; the draws of a ring particle of radius 50
  at angle 0 whose colour noise draw is 0.95; and the draws of an explosion point of
  radius 50 whose inclination has cosine \<open>8 / 17\<close>.
\<close>

definition gap_draws :: rng where
  "gap_draws = (\<lambda>k. 0.58)"

definition late_draws :: rng where
  "late_draws = (\<lambda>k. if k = 2 then 0 else 0.58)"

definition quiet_draws :: rng where
  "quiet_draws = (\<lambda>k. 0)"


definition bright_ring_draws :: rng where
  "bright_ring_draws =
     (\<lambda>k. if k = 0 then 0.5 else if k = 1 then 0.2 else if k = 2 then 0
          else if k = 3 then 0.5 else 0.95)"

text \<open>A scene of one particle, as \<open>createParticles\<close> leaves it for \<open>particleCount = 1\<close>.\<close>

definition demo_scene :: scene where
  "demo_scene =
     \<lparr>heap = (\<lambda>a. [])(0 := [Fin 1, Fin 2, Fin 3], 1 := [Fin 1, Fin 1, Fin 1],
                       2 := [Fin 1, Fin 2, Fin 3], 3 := [Fin 0, Fin 0, Fin 0]),
      next_addr = 4, position_array = 0, color_array = 1, basePositions = 2,
      spherePositions = 3, particles_in_scene = True, scene_material = initial_material,
      currentTemplate = ''galaxy'', solarSystemEnabled = False\<rparr>"

text \<open>A world at rest around the scene of one particle.\<close>

definition idle_world :: world where
  "idle_world =
     \<lparr>tracker = idle_tracking, stage = demo_scene, clock = 0, next_draw = 0,
      particles =
        \<lparr>tf_rotation = Vector3 0 0 0, tf_scale = Vector3 1 1 1, tf_position = Vector3 0 0 0\<rparr>,
      sunCore =
        \<lparr>tf_rotation = Vector3 0 0 0, tf_scale = Vector3 0 0 0, tf_position = Vector3 0 0 0\<rparr>,
      isMouseDown = False, targetRotationX = 0, targetRotationY = 0\<rparr>"


definition stored_at :: "f32array \<Rightarrow> nat \<Rightarrow> jsnum \<times> jsnum \<times> jsnum" where
  "stored_at a i = (f32_get a (i * 3), f32_get a (i * 3 + 1), f32_get a (i * 3 + 2))"

text \<open>The three numbers a buffer holds after the coordinates of \<open>p\<close> were stored.\<close>

definition rounded :: "vec3 \<Rightarrow> jsnum \<times> jsnum \<times> jsnum" where
  "rounded p = (fround (vec_x p), fround (vec_y p), fround (vec_z p))"

chapter \<open>Properties\<close>

section \<open>Gesture classifier\<close>

lemma js_error_only: "(e :: js_error) = TypeError"
  by (cases e) simp

lemma isFingerExtended_ok:
  "landmark_at h tipIndex \<noteq> None \<Longrightarrow> landmark_at h pipIndex \<noteq> None \<Longrightarrow>
   isFingerExtended h tipIndex pipIndex = Inr (tip_above_joint h tipIndex pipIndex)"
  by (auto simp add: isFingerExtended_def tip_above_joint_def)

lemma isFingerExtended_missing:
  "landmark_at h tipIndex = None \<or> landmark_at h pipIndex = None \<Longrightarrow>
   isFingerExtended h tipIndex pipIndex = Inl TypeError"
  by (auto simp add: isFingerExtended_def split: option.splits)

lemma extendedCount_four:
  "extendedCount [a, b, c, d] = of_bool a + of_bool b + of_bool c + of_bool d"
  by (simp add: extendedCount_def)

lemma detectGesture_present:
  assumes "\<forall>i\<in>set detect_indices. landmark_at h i \<noteq> None"
  shows "detectGesture h =
     Inr (if tip_above_joint h 8 6 \<and> tip_above_joint h 12 10 \<and> \<not> tip_above_joint h 16 14
          then Peace
          else if 3 \<le> fingers_up h then Open
          else if fingers_up h \<le> 1 then Closed
          else Neutral)"
  using assms
  by (simp add: detect_indices_def detectGesture_def isFingerExtended_ok extendedCount_four
        fingers_up_def)

text \<open>
  Claim C1. For a hand that has the ten landmarks \<open>detectGesture\<close> reads (every hand with
  all 21 landmarks has them), \<open>detectGesture\<close> returns peace exactly when the index and
  middle fingertips are above their PIP joints and the ring fingertip is not (the thumb
  and the pinky play no part); otherwise open when at least three of index, middle, ring
  and pinky are extended, closed when at most one is, neutral otherwise; the checks are
  made in this order.
\<close>

theorem detectGesture_classifies:
  assumes "\<forall>i\<in>set detect_indices. landmark_at h i \<noteq> None"
  shows "detectGesture h =
     Inr (if tip_above_joint h 8 6 \<and> tip_above_joint h 12 10 \<and> \<not> tip_above_joint h 16 14
          then Peace
          else if 3 \<le> fingers_up h then Open
          else if fingers_up h \<le> 1 then Closed
          else Neutral)
     \<and> (detectGesture h = Inr Peace \<longleftrightarrow>
          tip_above_joint h 8 6 \<and> tip_above_joint h 12 10 \<and> \<not> tip_above_joint h 16 14)"
  by (simp add: detectGesture_present [OF assms])

theorem detectGesture_classifies_witness:
  "list_all (\<lambda>i. landmark_at peace_hand i \<noteq> None) detect_indices
   \<and> length peace_hand = 21
   \<and> detectGesture peace_hand = Inr Peace
   \<and> tip_above_joint peace_hand 8 6 \<and> tip_above_joint peace_hand 12 10
   \<and> \<not> tip_above_joint peace_hand 16 14"
  using detectGesture_classifies [of peace_hand]
  by (simp add: peace_hand_def flat_hand_def tip_above_joint_def detect_indices_def
        landmark_at_def)

text \<open>A hand of 21 landmarks, none missing, has the ten landmarks.\<close>

lemma full_hand_present:
  assumes "21 \<le> length h" and "None \<notin> set h"
  shows "\<forall>i\<in>set detect_indices. landmark_at h i \<noteq> None"
proof
  fix i
  assume "i \<in> set detect_indices"
  then have "i < length h" using assms(1) by (auto simp add: detect_indices_def)
  then have "h ! i \<in> set h" and "landmark_at h i = h ! i"
    by (simp_all add: landmark_at_def)
  then show "landmark_at h i \<noteq> None" using assms(2) by metis
qed

subsection \<open>Smoothing\<close>

lemma count_from:
  "foldl (\<lambda>counts g. increment g counts) [(Open, a), (Closed, b), (Neutral, c), (Peace, d)] h
   = [(Open, a + count_list h Open), (Closed, b + count_list h Closed),
      (Neutral, c + count_list h Neutral), (Peace, d + count_list h Peace)]"
proof (induction h arbitrary: a b c d)
  case Nil
  then show ?case by simp
next
  case (Cons g h)
  then show ?case by (cases g) simp_all
qed

lemma count_gestures_eq:
  "count_gestures h = [(Open, count_list h Open), (Closed, count_list h Closed),
      (Neutral, count_list h Neutral), (Peace, count_list h Peace)]"
  using count_from [of 0 0 0 0 h] by (simp add: count_gestures_def initial_counts_def)

lemma length_by_counts:
  "length h = count_list h Open + count_list h Closed + count_list h Neutral + count_list h Peace"
proof (induction h)
  case Nil
  then show ?case by simp
next
  case (Cons g h)
  then show ?case by (cases g) simp_all
qed

lemma most_common_four:
  "most_common [(Open, a), (Closed, b), (Neutral, c), (Peace, d)] 0 Neutral =
     (if a > 0 \<and> a \<ge> b \<and> a \<ge> c \<and> a \<ge> d then Open
      else if b > 0 \<and> b \<ge> c \<and> b \<ge> d then Closed
      else if c > 0 \<and> c \<ge> d then Neutral
      else if d > 0 then Peace else Neutral)"
  by simp

lemma smoothed_max: "count_list h g \<le> count_list h (smoothed h)"
  by (cases g)
     (auto simp add: smoothed_def count_gestures_eq most_common_four simp del: most_common.simps)

lemma smoothed_first:
  "count_list h g = count_list h (smoothed h) \<Longrightarrow> h \<noteq> [] \<Longrightarrow> rank (smoothed h) \<le> rank g"
  using length_by_counts [of h]
  by (cases g)
     (auto simp add: smoothed_def count_gestures_eq most_common_four
           simp del: most_common.simps split: if_splits)

lemma smoothed_majority:
  assumes "length h < 2 * count_list h m"
  shows "smoothed h = m"
proof (rule ccontr)
  assume ne: "smoothed h \<noteq> m"
  have "count_list h m \<le> count_list h (smoothed h)" by (rule smoothed_max)
  moreover have "count_list h m + count_list h (smoothed h) \<le> length h"
    using ne length_by_counts [of h] by (cases m; cases "smoothed h") simp_all
  ultimately show False using assms by linarith
qed

lemma push_history_eq:
  "length h \<le> 5 \<Longrightarrow>
     push_history h g = (if length h = 5 then tl h @ [g] else h @ [g])"
  by (cases h) (auto simp add: push_history_def gestureHistorySize_def Let_def)

text \<open>
  Claim C2. For a history of at most 5 samples and a new sample, \<open>smoothGesture\<close> appends
  the sample, drops the oldest one when there would be more than 5, and returns a gesture
  that no gesture outnumbers in the new history; a gesture with as many samples as the
  returned one comes no earlier in the order open, closed, neutral, peace; and a gesture
  that holds more than half of the new history is the one returned, whatever the order of
  the samples.
\<close>

theorem smoothGesture_most_frequent:
  assumes "length history \<le> 5"
  shows "snd (smoothGesture g history) =
           (if length history = 5 then tl history @ [g] else history @ [g])
       \<and> length (snd (smoothGesture g history)) \<le> 5
       \<and> (\<forall>g'. count_list (snd (smoothGesture g history)) g'
                \<le> count_list (snd (smoothGesture g history)) (fst (smoothGesture g history)))
       \<and> (\<forall>g'. count_list (snd (smoothGesture g history)) g'
                 = count_list (snd (smoothGesture g history)) (fst (smoothGesture g history))
              \<longrightarrow> rank (fst (smoothGesture g history)) \<le> rank g')
       \<and> (\<forall>m. length (snd (smoothGesture g history))
                 < 2 * count_list (snd (smoothGesture g history)) m
              \<longrightarrow> fst (smoothGesture g history) = m)"
proof -
  let ?h = "push_history history g"
  have s: "smoothGesture g history = (smoothed ?h, ?h)"
    by (simp add: smoothGesture_def smoothed_def Let_def)
  have ne: "?h \<noteq> []" using assms by (auto simp add: push_history_eq)
  have len: "length ?h \<le> 5" using assms by (auto simp add: push_history_eq)
  show ?thesis
    unfolding s fst_conv snd_conv
    using ne len smoothed_max smoothed_first smoothed_majority push_history_eq [OF assms]
    by blast
qed

theorem smoothGesture_most_frequent_witness:
  "length [Open, Open, Closed, Closed, Neutral] \<le> 5
   \<and> smoothGesture Closed [Open, Open, Closed, Closed, Neutral]
       = (Closed, [Open, Closed, Closed, Neutral, Closed])
   \<and> length [Open, Closed, Closed, Neutral, Closed]
       < 2 * count_list [Open, Closed, Closed, Neutral, Closed] Closed"
  using smoothGesture_most_frequent [of "[Open, Open, Closed, Closed, Neutral]" Closed]
  by (simp add: prod_eq_iff)

subsection \<open>Malformed observations\<close>

lemma detectGesture_Inl:
  assumes "isFingerExtended h 4 3 = Inl TypeError \<or> isFingerExtended h 8 6 = Inl TypeError
           \<or> isFingerExtended h 12 10 = Inl TypeError \<or> isFingerExtended h 16 14 = Inl TypeError
           \<or> isFingerExtended h 20 18 = Inl TypeError"
  shows "detectGesture h = Inl TypeError"
proof (cases "detectGesture h")
  case (Inl e)
  then show ?thesis by (simp add: js_error_only)
next
  case (Inr g)
  then show ?thesis using assms by (auto simp add: detectGesture_def split: sum.splits)
qed

lemma detectGesture_missing:
  assumes "\<exists>i\<in>set detect_indices. landmark_at h i = None"
  shows "detectGesture h = Inl TypeError"
  using assms
  by (intro detectGesture_Inl) (auto simp add: detect_indices_def isFingerExtended_missing)

text \<open>An array of fewer than 21 slots has no landmark 20.\<close>

lemma short_hand_missing:
  assumes "length h < 21"
  shows "\<exists>i\<in>set detect_indices. landmark_at h i = None"
proof -
  have "landmark_at h 20 = None" using assms by (simp add: landmark_at_def)
  then show ?thesis by (auto simp add: detect_indices_def)
qed

lemma oneHand_missing:
  assumes "\<exists>i\<in>set detect_indices. landmark_at h i = None"
  shows "oneHand h st = (Some TypeError, st)"
  by (simp add: oneHand_def detectGesture_missing [OF assms])

lemma run_Cons: "run N draws (ev # events) w = run N draws events (dispatch N draws ev w)"
  by (simp add: run_def)

text \<open>
  Claim C7, as the code has it. For an observation of one hand that lacks one of the ten
  landmarks \<open>detectGesture\<close> reads (the landmarks 3, 4, 6, 8, 10, 12, 14, 16, 18 and 20;
  every array of fewer than 21 slots lacks landmark 20), \<open>onResults\<close> ends with an
  exception, the \<^verbatim>\<open>TypeError\<close> of reading \<^verbatim>\<open>y\<close> of \<^verbatim>\<open>undefined\<close> (the code has no exception
  of its own for a malformed observation), before its first assignment: every global of
  the tracker is as it was, the smoothed gesture, the history and all control signals.
  The animation goes on: whatever frames and observations follow, they are served from
  the state they would have been served from without the observation.
\<close>

theorem onResults_malformed_hand:
  assumes "length hand < 21 \<or> (\<exists>i\<in>set detect_indices. landmark_at hand i = None)"
  shows "onResults (Some [hand]) (tracker w) = (Some TypeError, tracker w)
       \<and> run N draws (Results (Some [hand]) # events) w = run N draws events w"
proof -
  have "\<exists>i\<in>set detect_indices. landmark_at hand i = None"
    using assms short_hand_missing by blast
  then have "onResults (Some [hand]) (tracker w) = (Some TypeError, tracker w)"
    by (simp add: onResults_def oneHand_missing)
  then show ?thesis by (simp add: run_Cons dispatch_def)
qed

theorem onResults_malformed_hand_witness:
  "length (flat_hand 5) < 21
   \<and> onResults (Some [flat_hand 5]) (tracker idle_world) = (Some TypeError, tracker idle_world)
   \<and> run 1 quiet_draws [Results (Some [flat_hand 5]), Frame] idle_world
       = run 1 quiet_draws [Frame] idle_world"
  using onResults_malformed_hand [of "flat_hand 5" idle_world 1 quiet_draws "[Frame]"]
  by (simp add: flat_hand_def)

text \<open>
  The claim as stated fails for a hand of fewer than 21 landmarks that has the ten
  landmarks of \<open>detectGesture\<close>: an array of 21 slots without the wrist, landmark 0, and
  with the other 20 landmarks. \<open>detectGesture\<close> returns closed, \<open>smoothGesture\<close> pushes it
  on the history, and the exception comes after that, in \<open>updateHandPosition\<close>: the
  smoothed gesture and the history have changed.
\<close>

theorem onResults_wristless_counterexample:
  "length wristless_hand = 21
   \<and> length (filter (\<lambda>l. l = None) wristless_hand) = 1
   \<and> onResults (Some [wristless_hand]) idle_tracking
       = (Some TypeError, idle_tracking\<lparr>handGesture := Closed, gestureHistory := [Closed]\<rparr>)
   \<and> gestureHistory (snd (onResults (Some [wristless_hand]) idle_tracking))
       \<noteq> gestureHistory idle_tracking"
proof -
  have d: "detectGesture wristless_hand = Inr Closed"
    by (simp add: detectGesture_def isFingerExtended_def landmark_at_def wristless_hand_def
          flat_hand_def extendedCount_def)
  have u: "updateHandPosition wristless_hand = Inl TypeError"
    by (simp add: updateHandPosition_def landmark_at_def wristless_hand_def flat_hand_def)
  have s: "smoothGesture Closed [] = (Closed, [Closed])"
    by (simp add: smoothGesture_def push_history_def gestureHistorySize_def count_gestures_def
          initial_counts_def)
  have o: "onResults (Some [wristless_hand]) idle_tracking
       = (Some TypeError, idle_tracking\<lparr>handGesture := Closed, gestureHistory := [Closed]\<rparr>)"
    by (simp add: onResults_def oneHand_def d u s idle_tracking_def)
  have l: "length wristless_hand = 21 \<and> length (filter (\<lambda>l. l = None) wristless_hand) = 1"
    by (simp add: wristless_hand_def flat_hand_def numeral_eq_Suc)
  show ?thesis unfolding o using l by (simp add: idle_tracking_def)
qed

text \<open>
  The landmarks 0, 9, 5 and 17 are read after the gesture is stored: when one of them is
  the first that is missing, the exception leaves \<open>onResults\<close> with the gesture and the
  history updated, and, past the wrist, the target position.
\<close>

lemma oneHand_late_exception:
  assumes "\<forall>i\<in>set detect_indices. landmark_at h i \<noteq> None"
    and "landmark_at h 0 = None \<or> landmark_at h 9 = None \<or> landmark_at h 5 = None
         \<or> landmark_at h 17 = None"
  shows "\<exists>g. detectGesture h = Inr g
           \<and> fst (oneHand h st) = Some TypeError
           \<and> handGesture (snd (oneHand h st)) = fst (smoothGesture g (gestureHistory st))
           \<and> gestureHistory (snd (oneHand h st)) = snd (smoothGesture g (gestureHistory st))"
proof -
  obtain g where g: "detectGesture h = Inr g"
    using detectGesture_present [OF assms(1)] by blast
  have "fst (oneHand h st) = Some TypeError
      \<and> handGesture (snd (oneHand h st)) = fst (smoothGesture g (gestureHistory st))
      \<and> gestureHistory (snd (oneHand h st)) = snd (smoothGesture g (gestureHistory st))"
    using assms(2)
    by (auto simp add: oneHand_def g Let_def updateHandPosition_def getHandRoll_def
          getHandYaw_def js_error_only split: option.splits)
  then show ?thesis using g by blast
qed

section \<open>Rounding to binary32\<close>

lemma round_half_even_error: "\<bar>of_int (round_half_even y) - y\<bar> \<le> 1 / 2"
proof -
  have "of_int \<lfloor>y\<rfloor> \<le> y" "y < of_int \<lfloor>y\<rfloor> + 1" by linarith+
  then show ?thesis by (auto simp add: round_half_even_def Let_def)
qed

lemma binade_eq:
  assumes "2 powr (of_int e) \<le> \<bar>x\<bar>" and "\<bar>x\<bar> < 2 powr (of_int e + 1)" and "- 126 \<le> e"
  shows "binade x = e"
proof -
  have "0 < \<bar>x\<bar>" using assms(1) powr_gt_zero [of 2 "of_int e"] by linarith
  then have "\<lfloor>log 2 \<bar>x\<bar>\<rfloor> = e"
    using assms(1,2) by (simp add: floor_log_eq_powr_iff)
  then show ?thesis using assms(3) by (simp add: binade_def)
qed


text \<open>
  The rounding of a number whose magnitude lies between \<open>2 ^ a\<close> and \<open>2 ^ (a + 1)\<close>: the
  nearest multiple of \<open>2 ^ a / 2 ^ 23\<close>.
\<close>

lemma fround_eval:
  assumes "2 ^ a \<le> \<bar>x\<bar>" and "\<bar>x\<bar> < 2 ^ (a + 1)" and "a \<le> 126"
  shows "fround x = Fin (of_int (round_half_even (x * 2 ^ 23 / 2 ^ a)) * 2 ^ a / 2 ^ 23)"
proof -
  have x0: "x \<noteq> 0"
  proof
    assume "x = 0"
    then have "(2 :: real) ^ a \<le> 0" using assms(1) by simp
    then show False using zero_less_power [of "2 :: real" a] by linarith
  qed
  have p: "2 powr (real a) = (2 :: real) ^ a" "2 powr (real a + 1) = 2 * (2 :: real) ^ a"
    by (simp_all add: powr_realpow powr_add)
  have b: "binade x = int a"
    using assms(1,2) by (intro binade_eq) (simp_all add: p)
  have u: "2 powr (of_int (binade x) - 23) = (2 :: real) ^ a / 2 ^ 23"
    unfolding b by (simp add: powr_diff powr_realpow)
  let ?r = "of_int (round_half_even (x / (2 ^ a / 2 ^ 23))) :: real"
  have "\<bar>?r - x / (2 ^ a / 2 ^ 23)\<bar> \<le> 1 / 2" by (rule round_half_even_error)
  then have "\<bar>?r\<bar> \<le> \<bar>x / (2 ^ a / 2 ^ 23)\<bar> + 1 / 2" by linarith
  then have "\<bar>?r\<bar> * (2 ^ a / 2 ^ 23) \<le> (\<bar>x / (2 ^ a / 2 ^ 23)\<bar> + 1 / 2) * (2 ^ a / 2 ^ 23)"
    by (intro mult_right_mono) simp_all
  also have "\<dots> = \<bar>x\<bar> + 2 ^ a / 2 ^ 24" by (simp add: field_simps abs_mult)
  also have "\<dots> < 2 ^ (a + 1) + 2 ^ a"
  proof -
    have "(2 :: real) ^ a / 2 ^ 24 \<le> 2 ^ a" by (simp add: divide_le_eq)
    then show ?thesis using assms(2) by linarith
  qed
  also have "\<dots> \<le> 2 ^ 128"
  proof -
    have "(2 :: real) ^ (a + 1) + 2 ^ a \<le> 2 ^ (a + 2)" by simp
    also have "\<dots> \<le> 2 ^ 128" using assms(3) by (intro power_increasing) simp_all
    finally show ?thesis .
  qed
  finally have "\<bar>?r * (2 ^ a / 2 ^ 23)\<bar> < 2 powr 128" by (simp add: abs_mult)
  then show ?thesis using x0 by (simp add: fround_def u Let_def)
qed


lemma fround_zero: "fround 0 = Fin 0"
  by (simp add: fround_def)


text \<open>The three roundings the properties below meet.\<close>

lemma fround_red: "fround (1003 / 1000) = Fin (4206887 / 4194304)"
  using fround_eval [of 0 "1003 / 1000"] by (simp add: round_half_even_def)



section \<open>Tint\<close>

lemma floor_channels: "channels_at_least lo (Color (max lo a) (max lo b) (max lo c))"
  by (simp add: channels_at_least_def Color_def)

lemma animate_tint_floor: "channels_at_least 0.3 (mat_color (animate_tint g m))"
  unfolding animate_tint_def Let_def material.simps by (rule floor_channels)

text \<open>The tint step is part of every frame in which the solar system is not shown.\<close>

lemma animate_particles_floor:
  "\<not> solarSystemEnabled st \<Longrightarrow>
     channels_at_least 0.3
       (mat_color (scene_material (fst (animate_particles g N time draws n st))))"
  by (simp add: animate_particles_def Let_def explodeUniverse_def animate_tint_floor)

text \<open>
  Claim C4, as the code has it. After any run of tint blends that ends with the tint step
  of a frame, every channel of the tint is at least 0.3, whatever the tint was before and
  whatever blends of the colour picker came earlier. (The frame is where the tint is
  drawn: \<open>animate\<close> renders after its tint step.)
\<close>

theorem tint_floor_after_frame:
  "channels_at_least 0.3 (mat_color (tint_run (ops @ [AnimateTint g]) m))"
  by (simp add: tint_run_def animate_tint_floor)

text \<open>
  The claim as stated fails after a blend of the colour picker, which has no floor:
  thirteen frames of the closed gesture bring the blue channel of the white material down
  to 0.3, and one \<open>changeColor\<close> with black then puts it at 0.21.
\<close>

theorem tint_floor_counterexample:
  "\<not> channels_at_least 0.3
       (mat_color (tint_run (thirteen_closed_frames @ [ChangeColor (Color 0 0 0)])
                     initial_material))"
  by (simp add: tint_run_def thirteen_closed_frames_def channels_at_least_def
      initial_material_def animate_tint_def changeColor_def color_lerp_def Color_def Let_def)

section \<open>Morph\<close>

lemmas jsnum_arith = plus_jsnum_def minus_jsnum_def times_jsnum_def divide_jsnum_def

lemma jadd_NaN_right: "jadd a NaN = NaN"
  by (cases a) simp_all

lemma jmul_NaN_right: "jmul a NaN = NaN"
  by (cases a) simp_all

lemma morph_zero_value: "morph_closed_value time (Fin 0, Fin 0, Fin 0) cur = (NaN, NaN, NaN)"
  by (cases cur) (simp add: morph_closed_value_def jsnum_arith jadd_NaN_right jmul_NaN_right)

lemma morph_zero: "morph_closed_particle time (Fin 0, Fin 0, Fin 0) cur = (NaN, NaN, NaN)"
  by (simp add: morph_closed_particle_def morph_zero_value)

lemma zero_radius: "setFromSphericalCoords 0 phi theta = Vector3 0 0 0"
  by (simp add: setFromSphericalCoords_def)

text \<open>A radius draw of 0 in the second loop of \<open>createParticles\<close> stores the zero vector.\<close>

lemma sphere_body_zero_draw:
  "draws n = 0 \<Longrightarrow> sphere_body draws i (arr, n) = (write3 arr i 0 0 0, n + 3)"
  by (simp add: sphere_body_def zero_radius Vector3_def)

lemma demo_closed_frame:
  "heap (fst (animate_particles Closed 1 time draws n demo_scene)) (position_array demo_scene)
     = [NaN, NaN, NaN]"
  by (simp add: animate_particles_def demo_scene_def Let_def morph_closed_body_def
      f32_get_def f32_set_def morph_zero_value)

text \<open>
  Claim C5 fails on the code: the division by \<open>dist\<close> has no guard. For a particle whose
  compressed position is the zero vector (which a radius of 0 gives), \<open>dist\<close> is 0, \<open>nx\<close>,
  \<open>ny\<close> and \<open>nz\<close> are \<open>0 / 0\<close>, and the loop body writes NaN into all three coordinates of
  the particle, at every clock value and whatever the coordinates were. A frame of the
  closed gesture on the scene of one such particle leaves the position buffer all NaN.
\<close>

theorem morph_zero_vector_writes_NaN:
  "morph_closed_particle time (Fin 0, Fin 0, Fin 0) cur = (NaN, NaN, NaN)
   \<and> setFromSphericalCoords 0 phi theta = Vector3 0 0 0
   \<and> heap (fst (animate_particles Closed 1 time draws n demo_scene))
         (position_array demo_scene) = [NaN, NaN, NaN]"
  by (intro conjI morph_zero zero_radius demo_closed_frame)

text \<open>
  Claim C9 fails on the code, by the same unguarded division: for a particle whose
  compressed position is the zero vector the coordinates do not approach the compressed
  shape. From the first iteration of the loop body on they are NaN, at a fixed clock
  value and along any sequence of clock values, whatever they were at the start; at no
  iteration are they three finite numbers.
\<close>

theorem morph_zero_vector_stays_NaN:
  "((morph_closed_particle time (Fin 0, Fin 0, Fin 0)) ^^ Suc k) cur = (NaN, NaN, NaN)
   \<and> foldl (\<lambda>c t. morph_closed_particle t (Fin 0, Fin 0, Fin 0) c) cur (clocks @ [time])
       = (NaN, NaN, NaN)
   \<and> \<not> (\<exists>x y z. ((morph_closed_particle time (Fin 0, Fin 0, Fin 0)) ^^ Suc k) cur
                   = (Fin x, Fin y, Fin z))"
  by (simp add: morph_zero)

text \<open>
  Away from the zero vector the body computes finite numbers and the store rounds them, so
  the blend can stop short of its target. At the clock value 0 the target of the
  compressed position \<open>(0, 2, 0)\<close> is that position; a second coordinate of
  \<open>2 - 6 / 2 ^ 23\<close>, six binary32 numbers below 2, is stored back as it is.
\<close>

lemma stall_value:
  "morph_closed_value 0 (Fin 0, Fin 2, Fin 0) (Fin 0, Fin c, Fin 0)
     = (Fin 0, Fin (c + (2 - c) * 0.08), Fin 0)"
  by (simp add: morph_closed_value_def jsnum_arith morphSpeed_def Let_def)

lemma stall_round:
  "fround (8388605 / 4194304 + (2 - 8388605 / 4194304) * 0.08) = Fin (8388605 / 4194304)"
  using fround_eval [of 0 "8388605 / 4194304 + (2 - 8388605 / 4194304) * 0.08"]
  by (simp add: round_half_even_def)

lemma morph_stall:
  "morph_closed_particle 0 (Fin 0, Fin 2, Fin 0) (Fin 0, Fin (8388605 / 4194304), Fin 0)
     = (Fin 0, Fin (8388605 / 4194304), Fin 0)"
  unfolding morph_closed_particle_def stall_value
  using stall_round by (simp add: fround_zero)

section \<open>Shape generator\<close>

subsection \<open>The ring radius loop\<close>

lemma ring_radius_step:
  "ring_radius draws n =
     (if accepted draws n
      then Some (draws n * 50 + 40, if in_gap (draws n * 50 + 40) then n + 2 else n + 1)
      else ring_radius draws (n + 2))"
  by (subst ring_radius.simps) (auto simp add: accepted_def in_gap_def Let_def)

lemma ring_radius_returns:
  "accepted draws (n + 2 * k) \<Longrightarrow> \<exists>y. ring_radius draws n = Some y"
proof (induction k arbitrary: n)
  case 0
  then show ?case by (subst ring_radius_step) simp
next
  case (Suc k)
  then have "accepted draws (n + 2 + 2 * k)" by simp
  then have "\<exists>y. ring_radius draws (n + 2) = Some y" by (rule Suc.IH)
  then show ?case by (subst ring_radius_step) simp
qed

lemma ring_radius_accepted:
  assumes "ring_radius draws n = Some y"
  shows "\<exists>k. accepted draws (n + 2 * k)"
proof (rule ring_radius.raw_induct
    [where P = "\<lambda>draws n y. \<exists>k. accepted draws (n + 2 * k)", OF _ assms], goal_cases)
  case (1 f d m z)
  show ?case
  proof (cases "accepted d m")
    case True
    then have "accepted d (m + 2 * 0)" by simp
    then show ?thesis by blast
  next
    case False
    then have "f d (m + 2) = Some z"
      using 1(2) by (auto simp add: accepted_def in_gap_def Let_def split: if_splits)
    then obtain k where "accepted d (m + 2 + 2 * k)" using 1(1) by blast
    then have "accepted d (m + 2 * Suc k)" by simp
    then show ?thesis by blast
  qed
qed

lemma saturn_returns_iff:
  "(\<exists>p. saturn particleCount draws n i = Some p)
     = (\<not> draws n < 0.7 \<or> (\<exists>y. ring_radius draws (n + 1) = Some y))"
  by (cases "ring_radius draws (n + 1)") (auto simp add: saturn_def Let_def)

text \<open>
  Claim C10, as the code has it. The loop returns exactly on the sequences of draws in
  which some iteration accepts: its radius is outside the gap or its second draw is below
  0.1 (iteration \<open>k\<close> reads the draws \<open>n + 2 * k\<close> and \<open>n + 2 * k + 1\<close>). The saturn template
  returns a position exactly when its particle is not a ring particle or the loop returns.
\<close>

theorem ring_radius_returns_iff:
  "(\<exists>y. ring_radius draws n = Some y) = (\<exists>k. accepted draws (n + 2 * k))
   \<and> (\<exists>p. saturn particleCount draws n i = Some p)
       = (\<not> draws n < 0.7 \<or> (\<exists>k. accepted draws (n + 1 + 2 * k)))"
  using ring_radius_returns ring_radius_accepted saturn_returns_iff by blast

theorem ring_radius_returns_iff_witness:
  "accepted late_draws (0 + 2 * 1) \<and> (\<exists>y. ring_radius late_draws 0 = Some y)
   \<and> ring_radius late_draws 0 = Some (40, 3)"
proof -
  have a: "accepted late_draws (0 + 2 * 1)"
    by (simp add: accepted_def in_gap_def late_draws_def)
  then have "\<exists>y. ring_radius late_draws 0 = Some y"
    using ring_radius_returns_iff [of late_draws 0] by blast
  moreover have "ring_radius late_draws 0 = Some (40, 3)"
    by (simp add: ring_radius_step accepted_def in_gap_def late_draws_def)
  ultimately show ?thesis using a by simp
qed

text \<open>
  The claim as stated fails: on the sequence whose every draw is 0.58 the particle is a
  ring particle, each iteration draws the radius 69, inside the gap, and fails the sparse
  test; the loop never returns, and neither does the template.
\<close>

theorem ring_radius_counterexample:
  "unit_draws gap_draws \<and> ring_radius gap_draws 1 = None
   \<and> saturn 35000 gap_draws 0 0 = None"
proof -
  have "\<not> accepted gap_draws m" for m
    by (simp add: accepted_def in_gap_def gap_draws_def)
  then have "\<not> (\<exists>y. ring_radius gap_draws 1 = Some y)"
    using ring_radius_accepted by blast
  then have r: "ring_radius gap_draws 1 = None" by (cases "ring_radius gap_draws 1") auto
  have "gap_draws 0 < 0.7" by (simp add: gap_draws_def)
  then have "saturn 35000 gap_draws 0 0 = None"
    using r by (simp add: saturn_def Let_def)
  moreover have "unit_draws gap_draws" by (simp add: unit_draws_def gap_draws_def)
  ultimately show ?thesis using r by simp
qed

subsection \<open>Unknown template keys\<close>

lemma call_template_unknown:
  assumes "key \<notin> set templateKeys" and "key \<notin> set inherited_functions"
  shows "call_template key particleCount draws n position i = Some (Inl TypeError)"
  using assms by (simp add: call_template_def templateKeys_def)

lemma fill_loop_unknown:
  assumes "key \<notin> set templateKeys" and "key \<notin> set inherited_functions" and "0 < particleCount"
  shows "fill_loop key particleCount draws [0..<particleCount] s = Some (Inl TypeError)"
proof -
  have "[0..<particleCount] = 0 # [Suc 0..<particleCount]"
    using assms(3) by (simp add: upt_conv_Cons)
  then show ?thesis
    by (simp add: fill_body_def call_template_unknown [OF assms(1,2)])
qed

text \<open>
  Claim C6, as the code has it. For a key that is not in the registry, is not
  \<^verbatim>\<open>solarsystem\<close> and is not the name of a function every object inherits, and a
  positive particle count, \<open>changeTemplate\<close> ends with a \<^verbatim>\<open>TypeError\<close> (the call of
  \<^verbatim>\<open>undefined\<close> in the first iteration of \<open>createParticles\<close>). No shape is generated: the
  buffers and their addresses are those of the previous shape. The key has become the
  current template and the particle system has been taken out of the scene.
\<close>

theorem changeTemplate_unknown_key:
  assumes "key \<notin> set templateKeys" and "key \<noteq> ''solarsystem''"
    and "key \<notin> set inherited_functions" and "0 < particleCount"
  shows "changeTemplate key particleCount draws n st =
           Some (Inl (TypeError,
                      st\<lparr>solarSystemEnabled := False, currentTemplate := key,
                         particles_in_scene := False\<rparr>))"
  using assms(2)
  by (simp add: changeTemplate_def createParticles_def toggleSolarSystem_def Let_def
      fill_loop_unknown [OF assms(1,3,4)])

theorem changeTemplate_unknown_key_witness:
  "''cube'' \<notin> set templateKeys \<and> ''cube'' \<noteq> ''solarsystem''
   \<and> ''cube'' \<notin> set inherited_functions \<and> (0 :: nat) < 35000
   \<and> changeTemplate ''cube'' 35000 quiet_draws 0 demo_scene =
         Some (Inl (TypeError,
                    demo_scene\<lparr>solarSystemEnabled := False, currentTemplate := ''cube'',
                       particles_in_scene := False\<rparr>))"
  using changeTemplate_unknown_key [of "''cube''" 35000 quiet_draws 0 demo_scene]
  by (simp add: templateKeys_def inherited_functions_def)

text \<open>
  The claim as stated fails for the key \<^verbatim>\<open>solarsystem\<close>, which is not in the registry:
  \<open>changeTemplate\<close> switches to the solar system and returns without an exception.
\<close>

theorem changeTemplate_counterexample:
  "''solarsystem'' \<notin> set templateKeys
   \<and> changeTemplate ''solarsystem'' 35000 quiet_draws 0 demo_scene =
         Some (Inr (demo_scene\<lparr>solarSystemEnabled := True\<rparr>, 0))"
  by (simp add: templateKeys_def changeTemplate_def toggleSolarSystem_def)

text \<open>
  It fails as well for the inherited names: the call returns and leaves \<open>position\<close> as it
  was, so every particle is put at the origin.
\<close>

lemma call_template_inherited:
  "call_template ''constructor'' particleCount draws n position i = Some (Inr (position, n))"
  by (simp add: call_template_def inherited_functions_def)

subsection \<open>Colours\<close>

lemma bright_ring_draws_at:
  "bright_ring_draws 0 = 0.5" "bright_ring_draws 1 = 0.2" "bright_ring_draws (Suc 0) = 0.2"
  "bright_ring_draws 2 = 0" "bright_ring_draws 3 = 0.5" "bright_ring_draws 4 = 0.95"
  by (simp_all add: bright_ring_draws_def)

lemma bright_ring_radius: "ring_radius bright_ring_draws 1 = Some (50, 2)"
  by (subst ring_radius_step) (simp add: accepted_def in_gap_def bright_ring_draws_at)

lemma saturn_ring:
  assumes "draws n < 0.7" and "ring_radius draws (n + 1) = Some (r, n')"
  shows "saturn particleCount draws n i =
     Some (Vector3
             (r * cos ((real i / real particleCount) * pi * 2 * 20 + draws n') * cos (27 * pi / 180)
                - (draws (n' + 1) - 0.5) * 0.5 * sin (27 * pi / 180))
             (r * cos ((real i / real particleCount) * pi * 2 * 20 + draws n') * sin (27 * pi / 180)
                + (draws (n' + 1) - 0.5) * 0.5 * cos (27 * pi / 180))
             (r * sin ((real i / real particleCount) * pi * 2 * 20 + draws n')),
           n' + 2)"
  using assms by (simp add: saturn_def Let_def)

lemma saturn_ring_flat:
  assumes "draws n < 0.7" and "ring_radius draws (n + 1) = Some (r, n')"
    and "draws n' = 0" and "draws (n' + 1) = 0.5"
  shows "\<exists>t. saturn particleCount draws n 0 = Some (Vector3 (r * cos t) (r * sin t) 0, n' + 2)"
proof -
  have "saturn particleCount draws n 0
          = Some (Vector3 (r * cos (27 * pi / 180)) (r * sin (27 * pi / 180)) 0, n' + 2)"
    unfolding saturn_ring [OF assms(1,2)] assms(3,4) by simp
  then show ?thesis by blast
qed

lemma ring_norm: "sqrt (r * cos t * (r * cos t) + r * sin t * (r * sin t) + 0 * 0) = \<bar>r\<bar>"
proof -
  have "r * cos t * (r * cos t) + r * sin t * (r * sin t) + 0 * 0
          = (r * r) * (cos t * cos t + sin t * sin t)"
    by algebra
  also have "\<dots> = r * r" by (simp add: sin_cos_squared_add3)
  finally have "sqrt (r * cos t * (r * cos t) + r * sin t * (r * sin t) + 0 * 0)
      = sqrt (r * r)" by simp
  then show ?thesis by (simp only: real_sqrt_abs2)
qed

lemma saturn_bright_band:
  assumes "sqrt (vec_x p * vec_x p + vec_y p * vec_y p + vec_z p * vec_z p) = d"
    and "45 < d" and "d < 55"
  shows "getSaturnColor p draws n
           = (multiplyScalar (Color 0.85 0.8 0.7) (0.8 + draws n * 0.4), n + 1)"
  using assms by (simp add: getSaturnColor_def Let_def)

lemma bright_ring_color:
  "getSaturnColor (Vector3 (50 * cos t) (50 * sin t) 0) bright_ring_draws 4
     = (Color (1003 / 1000) (944 / 1000) (826 / 1000), 5)"
proof -
  have "sqrt (vec_x (Vector3 (50 * cos t) (50 * sin t) 0)
               * vec_x (Vector3 (50 * cos t) (50 * sin t) 0)
             + vec_y (Vector3 (50 * cos t) (50 * sin t) 0)
               * vec_y (Vector3 (50 * cos t) (50 * sin t) 0)
             + vec_z (Vector3 (50 * cos t) (50 * sin t) 0)
               * vec_z (Vector3 (50 * cos t) (50 * sin t) 0)) = \<bar>50\<bar>"
    unfolding Vector3_def vec3.simps by (rule ring_norm)
  then have "sqrt (vec_x (Vector3 (50 * cos t) (50 * sin t) 0)
               * vec_x (Vector3 (50 * cos t) (50 * sin t) 0)
             + vec_y (Vector3 (50 * cos t) (50 * sin t) 0)
               * vec_y (Vector3 (50 * cos t) (50 * sin t) 0)
             + vec_z (Vector3 (50 * cos t) (50 * sin t) 0)
               * vec_z (Vector3 (50 * cos t) (50 * sin t) 0)) = 50"
    by simp
  from saturn_bright_band [OF this, of bright_ring_draws 4]
  show ?thesis by (simp add: bright_ring_draws_at multiplyScalar_def Color_def)
qed

lemma bright_ring_position:
  "\<exists>t. saturn 35000 bright_ring_draws 0 0 = Some (Vector3 (50 * cos t) (50 * sin t) 0, 4)"
proof -
  have "bright_ring_draws 0 < 0.7" by (simp add: bright_ring_draws_at)
  moreover have "ring_radius bright_ring_draws (0 + 1) = Some (50, 2)"
    using bright_ring_radius by simp
  ultimately show ?thesis
    using saturn_ring_flat [of bright_ring_draws 0 50 2 35000]
    by (simp add: bright_ring_draws_at)
qed

text \<open>
  Claim C3 fails on the code for the saturn template: \<open>getSaturnColor\<close> multiplies the ring
  colours by a factor up to 1.2 and does not clamp, as \<open>getGalaxyColor\<close> does. With the
  draws 0.5, 0.2, 0, 0.5, 0.95 the first iteration of the loop of \<open>createParticles\<close>
  places particle 0 on the ring at radius 50 and computes 1.003 as its red channel; the
  colour buffer holds its rounding to binary32, which is above 1 as well.
\<close>

theorem saturn_ring_color_above_one:
  "unit_draws bright_ring_draws
   \<and> (\<exists>s. fill_body ''saturn'' 35000 bright_ring_draws 0 (fresh_fill 35000 0) = Some (Inr s)
          \<and> f32_get (fs_colors s) 0 = fround (1003 / 1000))
   \<and> fround (1003 / 1000) = Fin (4206887 / 4194304)
   \<and> (1 :: real) < 4206887 / 4194304"
proof -
  have u: "unit_draws bright_ring_draws"
    by (simp add: unit_draws_def bright_ring_draws_def)
  obtain t where
    t: "saturn 35000 bright_ring_draws 0 0 = Some (Vector3 (50 * cos t) (50 * sin t) 0, 4)"
    using bright_ring_position by blast
  have c: "call_template ''saturn'' 35000 bright_ring_draws 0 (Vector3 0 0 0) 0
             = Some (Inr (Vector3 (50 * cos t) (50 * sin t) 0, 4))"
    by (simp add: call_template_def t)
  have p: "particle_color ''saturn'' (Vector3 (50 * cos t) (50 * sin t) 0) bright_ring_draws 4
             = Inr (Color (1003 / 1000) (944 / 1000) (826 / 1000), 5)"
    by (simp add: particle_color_def bright_ring_color)
  have g: "f32_get (write3 arr 0 a b c) 0 = fround a" if "3 \<le> length arr" for arr a b c
    using that by (auto simp add: write3_def f32_get_def f32_set_def)
  have "\<exists>s. fill_body ''saturn'' 35000 bright_ring_draws 0 (fresh_fill 35000 0) = Some (Inr s)
          \<and> f32_get (fs_colors s) 0 = fround (1003 / 1000)"
    unfolding fill_body_def fresh_fill_def fill_state.simps c
    by (simp add: p g Color_def)
  then show ?thesis using u fround_red by simp
qed

text \<open>No channel of a saturn colour is above 1.02.\<close>

lemma getSaturnColor_bound:
  assumes "0 \<le> draws n" and "draws n < 1" and "getSaturnColor p draws n = (c, n')"
  shows "channels_at_least 0 c \<and> col_r c \<le> 1.02 \<and> col_g c \<le> 1.02 \<and> col_b c \<le> 1.02"
proof -
  have f: "0 \<le> 0.8 + draws n * 0.4" "0.8 + draws n * 0.4 \<le> 1.2"
    "0 \<le> 0.9 + draws n * 0.2" "0.9 + draws n * 0.2 \<le> 1.1"
    using assms(1,2) by simp_all
  show ?thesis
    using assms(3) f
    by (auto simp add: getSaturnColor_def Let_def channels_at_least_def Color_def
        multiplyScalar_def split: if_splits)
qed

text \<open>The other two colour functions stay within \<open>[0, 1]\<close>.\<close>

lemma clamp01_range: "0 \<le> clamp01 v \<and> clamp01 v \<le> 1"
  by (simp add: clamp01_def)

lemma getGalaxyColor_range:
  assumes "getGalaxyColor position draws n = Inr (c, n')"
  shows "channels_at_least 0 c \<and> col_r c \<le> 1 \<and> col_g c \<le> 1 \<and> col_b c \<le> 1"
proof -
  obtain r g b where "c = Color (clamp01 r) (clamp01 g) (clamp01 b)"
    using assms by (auto simp add: getGalaxyColor_def Let_def split: sum.splits)
  then show ?thesis using clamp01_range by (simp add: channels_at_least_def Color_def)
qed

lemma getEarthColor_range:
  assumes "getEarthColor position draws n = (c, n')"
  shows "channels_at_least 0 c \<and> col_r c \<le> 1 \<and> col_g c \<le> 1 \<and> col_b c \<le> 1"
  using assms
  by (auto simp add: getEarthColor_def Let_def channels_at_least_def Color_def
      split: if_splits)

section \<open>Explosion\<close>

lemma length_write3 [simp]: "length (write3 a i u v w) = length a"
  by (simp add: write3_def f32_set_def)

lemma get_write3:
  assumes "i * 3 + 2 < length a"
  shows "f32_get (write3 a i u v w) j =
           (if j = i * 3 then fround u else if j = i * 3 + 1 then fround v
            else if j = i * 3 + 2 then fround w else f32_get a j)"
  using assms by (auto simp add: write3_def f32_set_def f32_get_def)

lemma stored_write3_same:
  assumes "i * 3 + 2 < length a"
  shows "stored_at (write3 a i (vec_x p) (vec_y p) (vec_z p)) i = rounded p"
  using assms by (simp add: stored_at_def rounded_def get_write3)

lemma stored_write3_other:
  assumes "k * 3 + 2 < length a" and "i < k"
  shows "stored_at (write3 a k u v w) i = stored_at a i"
  using assms by (simp add: stored_at_def get_write3)

lemma fold_upt_Suc: "fold f [0..<Suc k] s = f k (fold f [0..<k] s)"
  by simp

lemma explode_fold:
  assumes "k * 3 \<le> length a"
  shows "snd (fold (explode_body draws) [0..<k] (a, n)) = n + 3 * k
       \<and> length (fst (fold (explode_body draws) [0..<k] (a, n))) = length a
       \<and> (\<forall>i<k. stored_at (fst (fold (explode_body draws) [0..<k] (a, n))) i
                     = rounded (explode_point draws (n + 3 * i)))"
  using assms
proof (induction k)
  case 0
  then show ?case by simp
next
  case (Suc k)
  let ?prev = "fold (explode_body draws) [0..<k] (a, n)"
  have prev: "snd ?prev = n + 3 * k" "length (fst ?prev) = length a"
    "\<forall>i<k. stored_at (fst ?prev) i = rounded (explode_point draws (n + 3 * i))"
    using Suc by simp_all
  have step: "fold (explode_body draws) [0..<Suc k] (a, n) =
      (write3 (fst ?prev) k (vec_x (explode_point draws (n + 3 * k)))
          (vec_y (explode_point draws (n + 3 * k))) (vec_z (explode_point draws (n + 3 * k))),
       n + 3 * k + 3)"
    unfolding fold_upt_Suc using prev(1)
    by (cases ?prev) (simp add: explode_body_def Let_def)
  have room: "k * 3 + 2 < length (fst ?prev)" using Suc.prems prev(2) by simp
  have "stored_at (fst (fold (explode_body draws) [0..<Suc k] (a, n))) i
            = rounded (explode_point draws (n + 3 * i))" if "i < Suc k" for i
  proof (cases "i = k")
    case True
    then show ?thesis unfolding step fst_conv using room by (simp add: stored_write3_same)
  next
    case False
    then have "i < k" using that by simp
    then show ?thesis unfolding step fst_conv
      using room prev(3) by (simp add: stored_write3_other)
  qed
  then show ?case unfolding step using prev(2) by simp
qed

subsection \<open>Distances\<close>










lemma count_of_length: "nat \<lceil>real (3 * N) / 3\<rceil> = N"
  by simp

subsection \<open>The explosion\<close>

lemma explodeUniverse_buffers:
  assumes "position_array st \<noteq> basePositions st"
    and "position_array st \<noteq> spherePositions st"
    and "length (heap st (position_array st)) = 3 * N"
  shows "heap (fst (explodeUniverse draws n st)) (basePositions st) = heap st (basePositions st)
       \<and> heap (fst (explodeUniverse draws n st)) (spherePositions st)
           = heap st (spherePositions st)
       \<and> basePositions (fst (explodeUniverse draws n st)) = basePositions st
       \<and> spherePositions (fst (explodeUniverse draws n st)) = spherePositions st
       \<and> position_array (fst (explodeUniverse draws n st)) = position_array st
       \<and> length (heap (fst (explodeUniverse draws n st)) (position_array st)) = 3 * N
       \<and> snd (explodeUniverse draws n st) = n + 3 * N"
proof -
  let ?a = "heap st (position_array st)"
  have k: "N * 3 \<le> length ?a" using assms(3) by simp
  note f = explode_fold [OF k, of draws n]
  have e: "explodeUniverse draws n st
       = (st\<lparr>heap := (heap st)(position_array st := fst (fold (explode_body draws) [0..<N] (?a, n)))\<rparr>,
          snd (fold (explode_body draws) [0..<N] (?a, n)))"
    by (simp add: explodeUniverse_def Let_def assms(3))
  show ?thesis
    unfolding e using assms f by simp
qed







text \<open>
  \<open>createParticles\<close> leaves the buffers in this form: the position buffer, its copy
  \<^verbatim>\<open>basePositions\<close> and \<^verbatim>\<open>spherePositions\<close> are three arrays, and the position and colour
  buffers have three entries for each particle.
\<close>

lemma fill_body_lengths:
  assumes "fill_body key N draws i s = Some (Inr s')"
  shows "length (fs_positions s') = length (fs_positions s)
       \<and> length (fs_colors s') = length (fs_colors s)"
  using assms
  by (auto simp add: fill_body_def split: option.splits sum.splits prod.splits)

lemma fill_loop_lengths:
  assumes "fill_loop key N draws is s = Some (Inr s')"
  shows "length (fs_positions s') = length (fs_positions s)
       \<and> length (fs_colors s') = length (fs_colors s)"
  using assms
proof (induction "is" arbitrary: s)
  case Nil
  then show ?case by simp
next
  case (Cons i rest)
  then obtain s1 where s1: "fill_body key N draws i s = Some (Inr s1)"
    and r: "fill_loop key N draws rest s1 = Some (Inr s')"
    by (auto split: option.splits sum.splits)
  show ?case using Cons.IH [OF r] fill_body_lengths [OF s1] by simp
qed

lemma createParticles_buffers:
  assumes "createParticles N draws n st = Some (Inr (st', n'))"
  shows "position_array st' \<noteq> basePositions st'
       \<and> position_array st' \<noteq> spherePositions st'
       \<and> length (heap st' (position_array st')) = 3 * N
       \<and> length (heap st' (color_array st')) = 3 * N
       \<and> heap st' (basePositions st') = heap st' (position_array st')"
proof -
  obtain filled where
    f: "fill_loop (currentTemplate st) N draws [0..<N] (fresh_fill N n) = Some (Inr filled)"
    using assms by (auto simp add: createParticles_def Let_def split: option.splits sum.splits)
  have len: "length (fs_positions filled) = 3 * N" "length (fs_colors filled) = 3 * N"
    using fill_loop_lengths [OF f] by (simp_all add: fresh_fill_def)
  show ?thesis
    using assms len by (auto simp add: createParticles_def Let_def f)
qed

lemma explode_after_createParticles:
  assumes "createParticles N draws0 n0 st0 = Some (Inr (st, n1))"
  shows "heap (fst (explodeUniverse draws n st)) (basePositions st) = heap st (basePositions st)
       \<and> heap (fst (explodeUniverse draws n st)) (spherePositions st)
           = heap st (spherePositions st)"
  using createParticles_buffers [OF assms] explodeUniverse_buffers [of st N draws n]
  by blast

end
